theory Spec2Isabelle
  imports Main "HOL-Library.Word" "HOL-Library.Signed_Division"
begin

section \<open>Machine integers, faults and guarded array access\<close>

text \<open>
  The program is C++ and every number in the game model is an \<^verbatim>\<open>int\<close>.  An
  \<^verbatim>\<open>int\<close> is modelled as a 32-bit word: \<open>+\<close>, \<open>-\<close> and \<open>*\<close> wrap around, \<open>sint\<close>
  reads the two's complement value, and the comparisons of the source are comparisons of
  the \<open>sint\<close> values.

  Naming: a data member \<^verbatim>\<open>name_\<close> of a class is the record field \<open>cls_name\<close>
  (\<^verbatim>\<open>Position::x_\<close> is \<open>pos_x\<close>, \<^verbatim>\<open>Map::walls_\<close> is \<open>map_walls\<close>), because a
  name may not end in an underscore here.  Member functions keep their names and take the
  object as an argument; a member function that mutates the object returns the new one.
\<close>

type_synonym cint = "32 word"

text \<open>
  C++ raises nothing when a raw array is indexed out of range, when a null pointer is
  followed or when an integer is divided by zero: the behaviour is undefined.  The model
  is total, so each such place is a branch that returns a fault.
\<close>

datatype fault =
    IndexOutOfRange
  | NullPointer
  | BadArrayLength
  | DivisionFault
  | BufferOverrun
  | CastOutOfRange

definition bind_err :: "fault + 'a \<Rightarrow> ('a \<Rightarrow> fault + 'b) \<Rightarrow> fault + 'b" where
  "bind_err r f = (case r of Inl e \<Rightarrow> Inl e | Inr v \<Rightarrow> f v)"

text \<open>\<^verbatim>\<open>a % b\<close> of C++ truncates towards zero; the divisor is never zero where it is used.\<close>

definition c_mod :: "cint \<Rightarrow> cint \<Rightarrow> cint" where
  "c_mod a b = word_of_int (sint a smod sint b)"

text \<open>\<^verbatim>\<open>xs[i]\<close> read and \<^verbatim>\<open>xs[i] = v\<close> written, with the index checked.\<close>

definition index :: "'a list \<Rightarrow> cint \<Rightarrow> fault + 'a" where
  "index xs i =
     (if 0 \<le> sint i \<and> nat (sint i) < length xs then Inr (xs ! nat (sint i))
      else Inl IndexOutOfRange)"

definition store :: "'a list \<Rightarrow> cint \<Rightarrow> 'a \<Rightarrow> fault + 'a list" where
  "store xs i v =
     (if 0 \<le> sint i \<and> nat (sint i) < length xs then Inr (xs[nat (sint i) := v])
      else Inl IndexOutOfRange)"

text \<open>
  The tables \<^verbatim>\<open>int*** walls_\<close> and \<^verbatim>\<open>bool*** passibility_\<close>: a null pointer or
  rows of columns of faces.  \<open>table_get t y x f\<close> is \<^verbatim>\<open>t[y][x][f]\<close> read,
  \<open>table_set t y x f v\<close> is \<^verbatim>\<open>t[y][x][f] = v\<close>.
\<close>

type_synonym 'a table = "'a list list list option"

definition table_get :: "'a table \<Rightarrow> cint \<Rightarrow> cint \<Rightarrow> cint \<Rightarrow> fault + 'a" where
  "table_get t y x f =
     (case t of
        None \<Rightarrow> Inl NullPointer
      | Some rows \<Rightarrow>
          bind_err (index rows y) (\<lambda>row.
          bind_err (index row x) (\<lambda>cell.
          index cell f)))"

definition table_set :: "'a table \<Rightarrow> cint \<Rightarrow> cint \<Rightarrow> cint \<Rightarrow> 'a \<Rightarrow> fault + 'a table" where
  "table_set t y x f v =
     (case t of
        None \<Rightarrow> Inl NullPointer
      | Some rows \<Rightarrow>
          bind_err (index rows y) (\<lambda>row.
          bind_err (index row x) (\<lambda>cell.
          bind_err (store cell f v) (\<lambda>cell'.
          bind_err (store row x cell') (\<lambda>row'.
          bind_err (store rows y row') (\<lambda>rows'.
          Inr (Some rows')))))))"

text \<open>The values \<open>lo, lo + 1, ...\<close> that \<^verbatim>\<open>for (int i = lo; i < hi; i++)\<close> runs through.\<close>

definition counter_range :: "cint \<Rightarrow> cint \<Rightarrow> cint list" where
  "counter_range lo hi = map (\<lambda>k. lo + word_of_nat k) [0..<nat (sint hi - sint lo)]"

text \<open>A loop whose body may fault stops at the first fault.\<close>

fun for_each :: "cint list \<Rightarrow> (cint \<Rightarrow> 's \<Rightarrow> fault + 's) \<Rightarrow> 's \<Rightarrow> fault + 's" where
  "for_each [] body s = Inr s"
| "for_each (i # is) body s =
     (case body i s of Inl e \<Rightarrow> Inl e | Inr s' \<Rightarrow> for_each is body s')"

section \<open>Position (Position.h, Position.cpp)\<close>

record Position =
  pos_x :: cint
  pos_y :: cint
  pos_facing :: cint

text \<open>\<^verbatim>\<open>Position(int x, int y, int facing)\<close>; the default constructor is \<open>Position_new 0 0 0\<close>.\<close>

definition Position_new :: "cint \<Rightarrow> cint \<Rightarrow> cint \<Rightarrow> Position" where
  "Position_new x y facing = \<lparr>pos_x = x, pos_y = y, pos_facing = facing\<rparr>"

definition GetLeftFacingOfThis :: "Position \<Rightarrow> Position" where
  "GetLeftFacingOfThis p = Position_new (pos_x p) (pos_y p) (c_mod (pos_facing p + 3) 4)"

definition GetRightFacingOfThis :: "Position \<Rightarrow> Position" where
  "GetRightFacingOfThis p = Position_new (pos_x p) (pos_y p) (c_mod (pos_facing p + 1) 4)"

text \<open>
  The four stepping functions share one shape: a \<^verbatim>\<open>switch (facing_)\<close> that sets
  \<^verbatim>\<open>xOffset\<close> or \<^verbatim>\<open>yOffset\<close> (both start at 0; \<^verbatim>\<open>default: break\<close> leaves them),
  then \<^verbatim>\<open>new Position(x_ + xOffset, y_ + yOffset, facing_)\<close>.
\<close>

definition GetPositionLeftOfThis :: "Position \<Rightarrow> cint \<Rightarrow> Position" where
  "GetPositionLeftOfThis p steps =
     (let (xOffset, yOffset) =
        (if pos_facing p = 0 then (- 1 * steps, 0)
         else if pos_facing p = 1 then (0, - 1 * steps)
         else if pos_facing p = 2 then (steps, 0)
         else if pos_facing p = 3 then (0, steps)
         else (0, 0))
      in Position_new (pos_x p + xOffset) (pos_y p + yOffset) (pos_facing p))"

definition GetPositionRightOfThis :: "Position \<Rightarrow> cint \<Rightarrow> Position" where
  "GetPositionRightOfThis p steps =
     (let (xOffset, yOffset) =
        (if pos_facing p = 0 then (steps, 0)
         else if pos_facing p = 1 then (0, steps)
         else if pos_facing p = 2 then (- 1 * steps, 0)
         else if pos_facing p = 3 then (0, - 1 * steps)
         else (0, 0))
      in Position_new (pos_x p + xOffset) (pos_y p + yOffset) (pos_facing p))"

definition GetPositionAheadOfThis :: "Position \<Rightarrow> cint \<Rightarrow> Position" where
  "GetPositionAheadOfThis p steps =
     (let (xOffset, yOffset) =
        (if pos_facing p = 0 then (0, - 1 * steps)
         else if pos_facing p = 1 then (steps, 0)
         else if pos_facing p = 2 then (0, steps)
         else if pos_facing p = 3 then (- 1 * steps, 0)
         else (0, 0))
      in Position_new (pos_x p + xOffset) (pos_y p + yOffset) (pos_facing p))"

definition GetPositionBehindThis :: "Position \<Rightarrow> cint \<Rightarrow> Position" where
  "GetPositionBehindThis p steps =
     (let (xOffset, yOffset) =
        (if pos_facing p = 0 then (0, steps)
         else if pos_facing p = 1 then (- 1 * steps, 0)
         else if pos_facing p = 2 then (0, - 1 * steps)
         else if pos_facing p = 3 then (steps, 0)
         else (0, 0))
      in Position_new (pos_x p + xOffset) (pos_y p + yOffset) (pos_facing p))"

text \<open>\<^verbatim>\<open>self.Copy(source)\<close> assigns the three fields of \<open>source\<close> to \<open>self\<close>.\<close>

definition Copy :: "Position \<Rightarrow> Position \<Rightarrow> Position" where
  "Copy self source =
     self\<lparr>pos_x := pos_x source, pos_y := pos_y source, pos_facing := pos_facing source\<rparr>"

definition InBounds :: "Position \<Rightarrow> cint \<Rightarrow> cint \<Rightarrow> cint \<Rightarrow> cint \<Rightarrow> bool \<Rightarrow> bool" where
  "InBounds p left_b top_b right_b bottom_b inclusive =
     (if \<not> inclusive
      then (sint (pos_x p) > sint left_b \<and> sint (pos_y p) > sint top_b
            \<and> sint (pos_x p) < sint right_b \<and> sint (pos_y p) < sint bottom_b)
      else (sint (pos_x p) \<ge> sint left_b \<and> sint (pos_y p) \<ge> sint top_b
            \<and> sint (pos_x p) \<le> sint right_b \<and> sint (pos_y p) \<le> sint bottom_b))"

text \<open>
  The facings of the data model: North 0, East 1, South 2, West 3
  (\<^verbatim>\<open>PLAYER_FACING_NORTH\<close> ... \<^verbatim>\<open>PLAYER_FACING_WEST\<close> in Map.h).
\<close>

definition PLAYER_FACING_NORTH :: cint where "PLAYER_FACING_NORTH = 0"
definition PLAYER_FACING_EAST :: cint where "PLAYER_FACING_EAST = 1"
definition PLAYER_FACING_SOUTH :: cint where "PLAYER_FACING_SOUTH = 2"
definition PLAYER_FACING_WEST :: cint where "PLAYER_FACING_WEST = 3"

definition is_facing :: "cint \<Rightarrow> bool" where
  "is_facing f = (f = 0 \<or> f = 1 \<or> f = 2 \<or> f = 3)"

section \<open>Map (Map.h, Map.cpp)\<close>

definition WALL_FACING_EAST :: cint where "WALL_FACING_EAST = 1"
definition WALL_FACING_WEST :: cint where "WALL_FACING_WEST = 3"
definition WALL_FACING_NORTH :: cint where "WALL_FACING_NORTH = 4"
definition WALL_FACING_SOUTH :: cint where "WALL_FACING_SOUTH = 2"

definition WALL_TYPE_BRICK :: cint where "WALL_TYPE_BRICK = 1"
definition WALL_TYPE_STONE :: cint where "WALL_TYPE_STONE = 2"
definition WALL_TYPE_WOOD :: cint where "WALL_TYPE_WOOD = 3"
definition WALL_TYPE_METAL :: cint where "WALL_TYPE_METAL = 4"

text \<open>
  \<^verbatim>\<open>Position** startingPoints_\<close> is null or an array of pointers to positions; the
  source only ever allocates it with one element.
\<close>

record Map =
  map_width :: cint
  map_height :: cint
  map_walls :: "cint table"
  map_passibility :: "bool table"
  map_startingPoints :: "Position list option"

text \<open>\<^verbatim>\<open>Map::Map()\<close>: sizes 0, all pointers null.\<close>

definition Map_new :: Map where
  "Map_new = \<lparr>map_width = 0, map_height = 0, map_walls = None, map_passibility = None,
              map_startingPoints = None\<rparr>"

definition GetWallForCoordinate :: "Map \<Rightarrow> Position \<Rightarrow> fault + cint" where
  "GetWallForCoordinate m position =
     (if (sint (pos_x position) \<ge> 0 \<and> sint (pos_x position) < sint (map_width m))
         \<and> (sint (pos_y position) \<ge> 0 \<and> sint (pos_y position) < sint (map_height m))
      then table_get (map_walls m) (pos_y position) (pos_x position) (pos_facing position)
      else Inr 0)"

definition CanPassWallForCoordinate :: "Map \<Rightarrow> Position \<Rightarrow> fault + bool" where
  "CanPassWallForCoordinate m position =
     (if (sint (pos_x position) \<ge> 0 \<and> sint (pos_x position) < sint (map_width m))
         \<and> (sint (pos_y position) \<ge> 0 \<and> sint (pos_y position) < sint (map_height m))
      then table_get (map_passibility m) (pos_y position) (pos_x position) (pos_facing position)
      else Inr False)"

definition GetStartingPoint :: "Map \<Rightarrow> cint \<Rightarrow> fault + Position" where
  "GetStartingPoint m which =
     (case map_startingPoints m of
        None \<Rightarrow> Inr (Position_new 0 0 0)
      | Some points \<Rightarrow>
          if sint which < 1 then index points which else Inr (Position_new 0 0 0))"

text \<open>
  \<^verbatim>\<open>ClearMap\<close>, steps 1 and 3: when the old table is not null, the rows below
  \<^verbatim>\<open>height_\<close> and in each the columns below \<^verbatim>\<open>width_\<close> are read and freed; the
  current sizes are used, whatever the sizes of the old table.
\<close>

definition free_table :: "cint \<Rightarrow> cint \<Rightarrow> 'a table \<Rightarrow> fault + unit" where
  "free_table w h t =
     (case t of
        None \<Rightarrow> Inr ()
      | Some rows \<Rightarrow>
          for_each (counter_range 0 h) (\<lambda>row u.
            bind_err (index rows row) (\<lambda>r.
              for_each (counter_range 0 w) (\<lambda>column u.
                bind_err (index r column) (\<lambda>cell. Inr ())) ())) ())"

text \<open>
  Steps 2 and 4: \<^verbatim>\<open>new T**[height_]\<close> and, for each row, \<^verbatim>\<open>new T*[width_]\<close>.  A
  negative length is refused by \<^verbatim>\<open>new\<close>.
\<close>

definition alloc_table :: "cint \<Rightarrow> cint \<Rightarrow> fault + unit" where
  "alloc_table w h =
     (if sint h < 0 then Inl BadArrayLength
      else if 0 < sint h \<and> sint w < 0 then Inl BadArrayLength
      else Inr ())"

text \<open>
  Step 6, the body of the two outer loops for one cell: the \<^verbatim>\<open>depth\<close> loop clears the
  four faces, then faces 3, 0, 1 and 2 of \<^verbatim>\<open>passibility_\<close> are assigned in this order.
\<close>

definition clear_walls_cell :: "cint list" where
  "clear_walls_cell = replicate 4 0"

definition clear_passibility_cell :: "cint \<Rightarrow> cint \<Rightarrow> cint \<Rightarrow> cint \<Rightarrow> bool list" where
  "clear_passibility_cell w h row column =
     (replicate 4 True)
       [3 := (if 0 = column then False else True),
        0 := (if 0 = row then False else True),
        1 := (if w - 1 = column then False else True),
        2 := (if h - 1 = row then False else True)]"

definition ClearMap :: "Map \<Rightarrow> fault + Map" where
  "ClearMap m =
     (let w = map_width m; h = map_height m in
      bind_err (free_table w h (map_walls m)) (\<lambda>u.
      bind_err (alloc_table w h) (\<lambda>u.
      bind_err (free_table w h (map_passibility m)) (\<lambda>u.
      bind_err (alloc_table w h) (\<lambda>u.
      Inr (m\<lparr>map_walls :=
                Some (map (\<lambda>row. map (\<lambda>column. clear_walls_cell) (counter_range 0 w))
                        (counter_range 0 h)),
             map_passibility :=
                Some (map (\<lambda>row. map (\<lambda>column. clear_passibility_cell w h row column)
                                    (counter_range 0 w))
                        (counter_range 0 h)),
             map_startingPoints := None\<rparr>))))))"

definition MakeNormalWall :: "Position \<Rightarrow> cint \<Rightarrow> Map \<Rightarrow> fault + Map" where
  "MakeNormalWall position wallID m =
     bind_err (table_set (map_walls m)
                 (pos_y position) (pos_x position) (pos_facing position) wallID) (\<lambda>walls1.
     bind_err (table_set (map_passibility m)
                 (pos_y position) (pos_x position) (pos_facing position) False) (\<lambda>pass1.
     let positionAhead = Copy (Position_new 0 0 0) (GetPositionAheadOfThis position 1) in
     if InBounds positionAhead 0 0 (map_width m) (map_height m) True
     then
       (let newFacing = c_mod (pos_facing position + 2) 4 in
        bind_err (table_set walls1
                    (pos_y positionAhead) (pos_x positionAhead) newFacing wallID) (\<lambda>walls2.
        bind_err (table_set pass1
                    (pos_y positionAhead) (pos_x positionAhead) newFacing False) (\<lambda>pass2.
        Inr (m\<lparr>map_walls := walls2, map_passibility := pass2\<rparr>))))
     else Inr (m\<lparr>map_walls := walls1, map_passibility := pass1\<rparr>)))"

definition RemoveWall :: "Position \<Rightarrow> Map \<Rightarrow> fault + Map" where
  "RemoveWall position m =
     bind_err (table_set (map_walls m)
                 (pos_y position) (pos_x position) (pos_facing position) 0) (\<lambda>walls1.
     bind_err (table_set (map_passibility m)
                 (pos_y position) (pos_x position) (pos_facing position) True) (\<lambda>pass1.
     let positionAhead = Copy (Position_new 0 0 0) (GetPositionAheadOfThis position 1) in
     if InBounds positionAhead 0 0 (map_width m) (map_height m) True
     then
       (let newFacing = c_mod (pos_facing position + 2) 4 in
        bind_err (table_set walls1
                    (pos_y positionAhead) (pos_x positionAhead) newFacing 0) (\<lambda>walls2.
        bind_err (table_set pass1
                    (pos_y positionAhead) (pos_x positionAhead) newFacing True) (\<lambda>pass2.
        Inr (m\<lparr>map_walls := walls2, map_passibility := pass2\<rparr>))))
     else Inr (m\<lparr>map_walls := walls1, map_passibility := pass1\<rparr>)))"

text \<open>
  \<^verbatim>\<open>a / b\<close> of C++ truncates towards zero; a zero divisor, and the one quotient that
  does not fit, are faults.
\<close>

definition c_div :: "cint \<Rightarrow> cint \<Rightarrow> fault + cint" where
  "c_div a b =
     (if b = 0 \<or> (sint a = - (2 ^ 31) \<and> sint b = - 1) then Inl DivisionFault
      else Inr (word_of_int (sint a sdiv sint b)))"

text \<open>
  \<^verbatim>\<open>MakeFirstMockup\<close>, in the order of the source: the sizes, \<^verbatim>\<open>ClearMap\<close>, the
  starting point, the two border loops, the two corridor loops, the removed wall.
\<close>

definition mockup_border_rows :: "Map \<Rightarrow> fault + Map" where
  "mockup_border_rows m0 =
     for_each (counter_range 0 (map_height m0)) (\<lambda>row m.
       bind_err (MakeNormalWall (Position_new 0 row WALL_FACING_EAST) WALL_TYPE_STONE m) (\<lambda>m.
       MakeNormalWall (Position_new (map_width m - 1) row WALL_FACING_WEST) WALL_TYPE_STONE m))
     m0"

definition mockup_border_columns :: "Map \<Rightarrow> fault + Map" where
  "mockup_border_columns m0 =
     for_each (counter_range 0 (map_width m0)) (\<lambda>column m.
       bind_err (MakeNormalWall (Position_new column 0 WALL_FACING_SOUTH) WALL_TYPE_STONE m) (\<lambda>m.
       MakeNormalWall (Position_new column (map_height m - 1) WALL_FACING_NORTH)
         WALL_TYPE_STONE m))
     m0"

definition mockup_corridor_columns :: "Map \<Rightarrow> fault + Map" where
  "mockup_corridor_columns m0 =
     for_each (counter_range 2 (map_width m0 - 2)) (\<lambda>column m.
       bind_err (MakeNormalWall (Position_new column 1 WALL_FACING_SOUTH) WALL_TYPE_STONE m) (\<lambda>m.
       MakeNormalWall (Position_new column (map_height m - 2) WALL_FACING_SOUTH)
         WALL_TYPE_STONE m))
     m0"

definition mockup_corridor_rows :: "Map \<Rightarrow> fault + Map" where
  "mockup_corridor_rows m0 =
     for_each (counter_range 2 (map_height m0 - 1)) (\<lambda>row m.
       bind_err (MakeNormalWall (Position_new 1 row WALL_FACING_EAST) WALL_TYPE_STONE m) (\<lambda>m.
       MakeNormalWall (Position_new (map_width m - 2) row WALL_FACING_WEST) WALL_TYPE_STONE m))
     m0"

definition MakeFirstMockup :: "Map \<Rightarrow> fault + Map" where
  "MakeFirstMockup m =
     bind_err (ClearMap (m\<lparr>map_width := 0xA, map_height := 0xA\<rparr>)) (\<lambda>m.
     bind_err (mockup_border_rows
                 (m\<lparr>map_startingPoints := Some [Position_new 1 1 PLAYER_FACING_EAST]\<rparr>)) (\<lambda>m.
     bind_err (mockup_border_columns m) (\<lambda>m.
     bind_err (mockup_corridor_columns m) (\<lambda>m.
     bind_err (mockup_corridor_rows m) (\<lambda>m.
     bind_err (c_div (map_height m) 2) (\<lambda>half.
     RemoveWall (Position_new 2 half WALL_FACING_WEST) m))))))"

definition MakeMockup :: "Map \<Rightarrow> fault + Map" where
  "MakeMockup m = MakeFirstMockup m"

definition IsVisited :: "Map \<Rightarrow> cint \<Rightarrow> cint \<Rightarrow> bool" where
  "IsVisited m column row = False"

definition GetWidth :: "Map \<Rightarrow> cint" where
  "GetWidth m = map_width m"

definition GetHeight :: "Map \<Rightarrow> cint" where
  "GetHeight m = map_height m"

text \<open>
  A built map: both tables are allocated with \<^verbatim>\<open>height_\<close> rows of \<^verbatim>\<open>width_\<close> columns
  of 4 faces, which is what \<^verbatim>\<open>ClearMap\<close> allocates and every wall operation keeps.
\<close>

definition table_shape :: "cint \<Rightarrow> cint \<Rightarrow> 'a table \<Rightarrow> bool" where
  "table_shape w h t =
     (case t of
        None \<Rightarrow> False
      | Some rows \<Rightarrow>
          length rows = nat (sint h)
          \<and> list_all (\<lambda>row. length row = nat (sint w)
                            \<and> list_all (\<lambda>cell. length cell = 4) row) rows)"

definition built_map :: "Map \<Rightarrow> bool" where
  "built_map m =
     (table_shape (map_width m) (map_height m) (map_walls m)
      \<and> table_shape (map_width m) (map_height m) (map_passibility m))"

text \<open>The cell \<open>(x, y)\<close> lies in the grid of \<open>w\<close> columns and \<open>h\<close> rows.\<close>

definition in_map :: "cint \<Rightarrow> cint \<Rightarrow> cint \<Rightarrow> cint \<Rightarrow> bool" where
  "in_map w h x y = (0 \<le> sint x \<and> sint x < sint w \<and> 0 \<le> sint y \<and> sint y < sint h)"

text \<open>
  A map of two columns and one row as \<^verbatim>\<open>ClearMap\<close> leaves it, for trying the
  theorems out on a concrete input.
\<close>

definition corridor_map :: Map where
  "corridor_map =
     \<lparr>map_width = 2, map_height = 1,
      map_walls = Some [[[0, 0, 0, 0], [0, 0, 0, 0]]],
      map_passibility = Some [[[False, True, False, False], [False, False, False, True]]],
      map_startingPoints = None\<rparr>"

section \<open>GameState (GameState.h, GameState.cpp)\<close>

text \<open>
  \<^verbatim>\<open>Map* currentMap_\<close> is null until the first \<^verbatim>\<open>StartNewGame\<close>;
  \<^verbatim>\<open>Position* playerPosition_\<close> is allocated by the constructor and never null.
\<close>

record GameState =
  gs_currentMap :: "Map option"
  gs_playerPosition :: Position

definition GameState_new :: GameState where
  "GameState_new = \<lparr>gs_currentMap = None, gs_playerPosition = Position_new 0 0 0\<rparr>"

definition StartNewGame :: "GameState \<Rightarrow> fault + GameState" where
  "StartNewGame g =
     bind_err (MakeMockup Map_new) (\<lambda>m.
     bind_err (GetStartingPoint m 0) (\<lambda>start.
     Inr (g\<lparr>gs_currentMap := Some m,
            gs_playerPosition := Copy (gs_playerPosition g) start\<rparr>)))"

text \<open>The movement functions return the \<^verbatim>\<open>bool\<close> of the source and the new state.\<close>

definition MovePlayerForward :: "GameState \<Rightarrow> fault + (bool \<times> GameState)" where
  "MovePlayerForward g =
     (case gs_currentMap g of
        None \<Rightarrow> Inl NullPointer
      | Some m \<Rightarrow>
          bind_err (CanPassWallForCoordinate m (gs_playerPosition g)) (\<lambda>pass.
          if pass
          then Inr (True, g\<lparr>gs_playerPosition :=
                               Copy (gs_playerPosition g)
                                 (GetPositionAheadOfThis (gs_playerPosition g) 1)\<rparr>)
          else Inr (False, g)))"

definition MovePlayerBack :: "GameState \<Rightarrow> fault + (bool \<times> GameState)" where
  "MovePlayerBack g =
     (case gs_currentMap g of
        None \<Rightarrow> Inl NullPointer
      | Some m \<Rightarrow>
          (let tempPosition =
                 Copy (Position_new 0 0 0)
                   (GetLeftFacingOfThis (GetLeftFacingOfThis (gs_playerPosition g)))
           in bind_err (CanPassWallForCoordinate m tempPosition) (\<lambda>pass.
              if pass
              then Inr (True, g\<lparr>gs_playerPosition :=
                                   Copy (gs_playerPosition g)
                                     (GetPositionBehindThis (gs_playerPosition g) 1)\<rparr>)
              else Inr (False, g))))"

definition MovePlayerLeft :: "GameState \<Rightarrow> fault + (bool \<times> GameState)" where
  "MovePlayerLeft g =
     (case gs_currentMap g of
        None \<Rightarrow> Inl NullPointer
      | Some m \<Rightarrow>
          (let tempPosition =
                 Copy (Position_new 0 0 0) (GetLeftFacingOfThis (gs_playerPosition g))
           in bind_err (CanPassWallForCoordinate m tempPosition) (\<lambda>pass.
              if pass
              then Inr (True, g\<lparr>gs_playerPosition :=
                                   Copy (gs_playerPosition g)
                                     (GetPositionLeftOfThis (gs_playerPosition g) 1)\<rparr>)
              else Inr (False, g))))"

definition MovePlayerRight :: "GameState \<Rightarrow> fault + (bool \<times> GameState)" where
  "MovePlayerRight g =
     (case gs_currentMap g of
        None \<Rightarrow> Inl NullPointer
      | Some m \<Rightarrow>
          (let tempPosition =
                 Copy (Position_new 0 0 0) (GetRightFacingOfThis (gs_playerPosition g))
           in bind_err (CanPassWallForCoordinate m tempPosition) (\<lambda>pass.
              if pass
              then Inr (True, g\<lparr>gs_playerPosition :=
                                   Copy (gs_playerPosition g)
                                     (GetPositionRightOfThis (gs_playerPosition g) 1)\<rparr>)
              else Inr (False, g))))"

definition TurnPlayerLeft :: "GameState \<Rightarrow> GameState" where
  "TurnPlayerLeft g =
     g\<lparr>gs_playerPosition := Copy (gs_playerPosition g) (GetLeftFacingOfThis (gs_playerPosition g))\<rparr>"

definition TurnPlayerRight :: "GameState \<Rightarrow> GameState" where
  "TurnPlayerRight g =
     g\<lparr>gs_playerPosition := Copy (gs_playerPosition g) (GetRightFacingOfThis (gs_playerPosition g))\<rparr>"

section \<open>The mockup as it runs\<close>

text \<open>
  The guarded \<open>table_set\<close> stops at a store \<^verbatim>\<open>t[y][x][f] = v\<close> whose face index is
  outside the array of the cell.  The program does not stop there: the row and the column
  are dereferenced as usual, the value is written outside the array of the cell (for
  \<open>f = 4\<close> directly behind its four faces), and the next statement runs.  \<open>table_store\<close>
  follows the program: a store with the face index in range is the store of \<open>table_set\<close>;
  a store with the row and the column in range and the face index out of range leaves the
  table as it is and is recorded as a stray store, with the table, the row, the column and
  the face index.  Nothing of the map model lies where a stray store lands: the faces of a
  cell are \<^verbatim>\<open>new int[4]\<close> or \<^verbatim>\<open>new bool[4]\<close>, arrays of their own, and the sizes,
  the tables of rows and columns and the starting points are other objects.  A null table,
  and a row or a column out of range, stay faults.
\<close>

datatype face_table = WallsTable | PassibilityTable

datatype stray_store = StrayStore face_table cint cint cint

definition table_store ::
  "face_table \<Rightarrow> 'a table \<Rightarrow> cint \<Rightarrow> cint \<Rightarrow> cint \<Rightarrow> 'a
     \<Rightarrow> fault + ('a table \<times> stray_store list)"
where
  "table_store which t y x f v =
     (case t of
        None \<Rightarrow> Inl NullPointer
      | Some rows \<Rightarrow>
          bind_err (index rows y) (\<lambda>row.
          bind_err (index row x) (\<lambda>cell.
          if 0 \<le> sint f \<and> nat (sint f) < length cell
          then bind_err (table_set t y x f v) (\<lambda>t'. Inr (t', []))
          else Inr (t, [StrayStore which y x f]))))"

text \<open>
  \<^verbatim>\<open>MakeNormalWall\<close> and \<^verbatim>\<open>RemoveWall\<close> with \<open>table_store\<close> for each of their
  four stores; the state is the map and the stray stores so far, in order.
\<close>

definition MakeNormalWall_run ::
  "Position \<Rightarrow> cint \<Rightarrow> Map \<times> stray_store list \<Rightarrow> fault + (Map \<times> stray_store list)"
where
  "MakeNormalWall_run position wallID ms =
     (let m = fst ms; strays = snd ms in
      bind_err (table_store WallsTable (map_walls m)
                  (pos_y position) (pos_x position) (pos_facing position) wallID)
        (\<lambda>(walls1, s1).
      bind_err (table_store PassibilityTable (map_passibility m)
                  (pos_y position) (pos_x position) (pos_facing position) False)
        (\<lambda>(pass1, s2).
      let positionAhead = Copy (Position_new 0 0 0) (GetPositionAheadOfThis position 1) in
      if InBounds positionAhead 0 0 (map_width m) (map_height m) True
      then
        (let newFacing = c_mod (pos_facing position + 2) 4 in
         bind_err (table_store WallsTable walls1
                     (pos_y positionAhead) (pos_x positionAhead) newFacing wallID)
           (\<lambda>(walls2, s3).
         bind_err (table_store PassibilityTable pass1
                     (pos_y positionAhead) (pos_x positionAhead) newFacing False)
           (\<lambda>(pass2, s4).
         Inr (m\<lparr>map_walls := walls2, map_passibility := pass2\<rparr>,
              strays @ s1 @ s2 @ s3 @ s4))))
      else Inr (m\<lparr>map_walls := walls1, map_passibility := pass1\<rparr>, strays @ s1 @ s2))))"

definition RemoveWall_run ::
  "Position \<Rightarrow> Map \<times> stray_store list \<Rightarrow> fault + (Map \<times> stray_store list)"
where
  "RemoveWall_run position ms =
     (let m = fst ms; strays = snd ms in
      bind_err (table_store WallsTable (map_walls m)
                  (pos_y position) (pos_x position) (pos_facing position) 0)
        (\<lambda>(walls1, s1).
      bind_err (table_store PassibilityTable (map_passibility m)
                  (pos_y position) (pos_x position) (pos_facing position) True)
        (\<lambda>(pass1, s2).
      let positionAhead = Copy (Position_new 0 0 0) (GetPositionAheadOfThis position 1) in
      if InBounds positionAhead 0 0 (map_width m) (map_height m) True
      then
        (let newFacing = c_mod (pos_facing position + 2) 4 in
         bind_err (table_store WallsTable walls1
                     (pos_y positionAhead) (pos_x positionAhead) newFacing 0)
           (\<lambda>(walls2, s3).
         bind_err (table_store PassibilityTable pass1
                     (pos_y positionAhead) (pos_x positionAhead) newFacing True)
           (\<lambda>(pass2, s4).
         Inr (m\<lparr>map_walls := walls2, map_passibility := pass2\<rparr>,
              strays @ s1 @ s2 @ s3 @ s4))))
      else Inr (m\<lparr>map_walls := walls1, map_passibility := pass1\<rparr>, strays @ s1 @ s2))))"








text \<open>The stray stores of the mockup: face index 4 of each cell of the last row, in both tables.\<close>

definition mockup_strays :: "stray_store list" where
  "mockup_strays =
     concat (map (\<lambda>column. [StrayStore WallsTable 9 column 4,
                             StrayStore PassibilityTable 9 column 4])
                 (counter_range 0 10))"

section \<open>WallSpriteSet (WallSpriteSet.h, WallSpriteSet.cpp)\<close>

text \<open>
  An \<^verbatim>\<open>SDL_Surface*\<close> is a handle or null.  \<^verbatim>\<open>Engine::LoadImageResource\<close> reads
  the file system and is a parameter \<open>load\<close> of the constructor: it gives the handle
  of the file at a path, or null when the file cannot be loaded.
\<close>

datatype SDL_Surface = Surface nat

record WallSpriteSet =
  wss_frontImages :: "SDL_Surface option list"
  wss_leftImages :: "SDL_Surface option list"
  wss_rightImages :: "SDL_Surface option list"
  wss_visibleDepth :: cint

text \<open>\<^verbatim>\<open>%d\<close> of \<^verbatim>\<open>sprintf\<close>.\<close>

fun decimal :: "nat \<Rightarrow> string" where
  "decimal n =
     (if n < 10 then [char_of (48 + n)] else decimal (n div 10) @ [char_of (48 + n mod 10)])"

definition print_int :: "cint \<Rightarrow> string" where
  "print_int i = (if sint i < 0 then CHR ''-'' # decimal (nat (- sint i)) else decimal (nat (sint i)))"

text \<open>
  \<^verbatim>\<open>sprintf(buffer, "%sf%d.png", rootPath, index)\<close> into \<^verbatim>\<open>char buffer[0x100]\<close>:
  the text and its terminating zero must fit.
\<close>

definition sprite_path :: "string \<Rightarrow> string \<Rightarrow> cint \<Rightarrow> fault + string" where
  "sprite_path rootPath letter i =
     (let buffer = rootPath @ letter @ print_int i @ ''.png''
      in if length buffer + 1 > 0x100 then Inl BufferOverrun else Inr buffer)"

text \<open>
  The constructor: \<^verbatim>\<open>visibleDepth_ = 3\<close>, three arrays of that length, and a loop
  that fills slot \<^verbatim>\<open>index\<close> of each.  A slot not yet assigned is written \<open>None\<close>.
\<close>

definition load_sprites ::
  "(string \<Rightarrow> SDL_Surface option) \<Rightarrow> string \<Rightarrow> cint \<Rightarrow> WallSpriteSet \<Rightarrow> fault + WallSpriteSet"
where
  "load_sprites load rootPath i s =
     bind_err (sprite_path rootPath ''f'' i) (\<lambda>buffer.
     bind_err (store (wss_frontImages s) i (load buffer)) (\<lambda>front.
     bind_err (sprite_path rootPath ''l'' i) (\<lambda>buffer.
     bind_err (store (wss_leftImages s) i (load buffer)) (\<lambda>left.
     bind_err (sprite_path rootPath ''r'' i) (\<lambda>buffer.
     bind_err (store (wss_rightImages s) i (load buffer)) (\<lambda>right.
     Inr (s\<lparr>wss_frontImages := front, wss_leftImages := left, wss_rightImages := right\<rparr>)))))))"

definition WallSpriteSet_new ::
  "(string \<Rightarrow> SDL_Surface option) \<Rightarrow> string \<Rightarrow> fault + WallSpriteSet"
where
  "WallSpriteSet_new load rootPath =
     (let visibleDepth = 0x3 in
      for_each (counter_range 0 visibleDepth) (load_sprites load rootPath)
        \<lparr>wss_frontImages = replicate (nat (sint visibleDepth)) None,
         wss_leftImages = replicate (nat (sint visibleDepth)) None,
         wss_rightImages = replicate (nat (sint visibleDepth)) None,
         wss_visibleDepth = visibleDepth\<rparr>)"

definition GetFrontImage :: "WallSpriteSet \<Rightarrow> cint \<Rightarrow> fault + SDL_Surface option" where
  "GetFrontImage s rng =
     (if sint rng > sint (wss_visibleDepth s) then Inr None else index (wss_frontImages s) rng)"

definition GetLeftImage :: "WallSpriteSet \<Rightarrow> cint \<Rightarrow> fault + SDL_Surface option" where
  "GetLeftImage s rng =
     (if sint rng > sint (wss_visibleDepth s) then Inr None else index (wss_leftImages s) rng)"

definition GetRightImage :: "WallSpriteSet \<Rightarrow> cint \<Rightarrow> fault + SDL_Surface option" where
  "GetRightImage s rng =
     (if sint rng > sint (wss_visibleDepth s) then Inr None else index (wss_rightImages s) rng)"

text \<open>What the constructor establishes: the depth is 3 and each array has 3 slots.\<close>

definition sprite_shape :: "WallSpriteSet \<Rightarrow> bool" where
  "sprite_shape s =
     (wss_visibleDepth s = 3 \<and> length (wss_frontImages s) = 3
      \<and> length (wss_leftImages s) = 3 \<and> length (wss_rightImages s) = 3)"

section \<open>ArtManager (ArtManager.h, ArtManager.cpp)\<close>

record ArtManager =
  am_allArtLoadedSuccessfully :: bool
  am_allWallSprites :: "WallSpriteSet list"

definition LoadArt ::
  "(string \<Rightarrow> SDL_Surface option) \<Rightarrow> ArtManager \<Rightarrow> fault + (bool \<times> ArtManager)"
where
  "LoadArt load am =
     bind_err (WallSpriteSet_new load ''resources/first_wall/'') (\<lambda>s1.
     bind_err (WallSpriteSet_new load ''resources/stone_wall/'') (\<lambda>s2.
     bind_err (WallSpriteSet_new load ''resources/wood_wall/'') (\<lambda>s3.
     bind_err (WallSpriteSet_new load ''resources/metal_wall/'') (\<lambda>s4.
     Inr (True, am\<lparr>am_allWallSprites := am_allWallSprites am @ [s1, s2, s3, s4]\<rparr>)))))"

definition ArtManager_new :: "(string \<Rightarrow> SDL_Surface option) \<Rightarrow> fault + ArtManager" where
  "ArtManager_new load =
     bind_err (LoadArt load \<lparr>am_allArtLoadedSuccessfully = False, am_allWallSprites = []\<rparr>)
       (\<lambda>(ok, am). Inr (am\<lparr>am_allArtLoadedSuccessfully := ok\<rparr>))"

text \<open>
  \<^verbatim>\<open>GetWallSetNumber(unsigned int which)\<close>: the callers pass an \<^verbatim>\<open>int\<close>, which is
  read as unsigned (\<open>unat\<close>).  The result is a pointer to a sprite set or null.
\<close>

definition GetWallSetNumber :: "ArtManager \<Rightarrow> cint \<Rightarrow> WallSpriteSet option" where
  "GetWallSetNumber am which =
     (if unat which > 0 \<and> unat which \<le> length (am_allWallSprites am)
      then Some (am_allWallSprites am ! (unat which - 1)) else None)"

text \<open>
  The six offset functions compute in \<^verbatim>\<open>float\<close>.  Every \<^verbatim>\<open>float\<close> they meet is a
  whole number, and is modelled by that number.  \<open>to_float v\<close> is the \<^verbatim>\<open>float\<close>
  nearest to the whole number \<open>v\<close>: \<open>v\<close> itself when it has at most 24 significant
  bits, else \<open>v\<close> rounded to 24 significant bits, a tie going to the even one.  A sum and
  a product of two \<^verbatim>\<open>float\<close>s are the exact results rounded so; the numbers here stay
  far below the largest \<^verbatim>\<open>float\<close>.
\<close>

function bit_length :: "int \<Rightarrow> nat" where
  "bit_length a = (if a \<le> 0 then 0 else Suc (bit_length (a div 2)))"
  by pat_completeness auto
termination
  by (relation "measure nat") auto

declare bit_length.simps [simp del]

definition to_float :: "int \<Rightarrow> int" where
  "to_float v =
     (let a = \<bar>v\<bar> in
      if bit_length a \<le> 24 then v
      else
        (let e = bit_length a - 24;
             q = a div 2 ^ e;
             r = a mod 2 ^ e;
             q' = (if 2 * r > 2 ^ e \<or> (2 * r = 2 ^ e \<and> odd q) then q + 1 else q)
         in sgn v * (q' * 2 ^ e)))"

definition float_plus :: "int \<Rightarrow> int \<Rightarrow> int" where
  "float_plus a b = to_float (a + b)"

definition float_times :: "int \<Rightarrow> int \<Rightarrow> int" where
  "float_times a b = to_float (a * b)"

text \<open>
  \<^verbatim>\<open>static_cast<float>(i)\<close> of an \<^verbatim>\<open>int\<close>, and \<^verbatim>\<open>static_cast<int>(f)\<close> of a
  \<^verbatim>\<open>float\<close> holding a whole number: the number, when an \<^verbatim>\<open>int\<close> can hold it.
\<close>

definition float_of_int :: "cint \<Rightarrow> int" where
  "float_of_int i = to_float (sint i)"

definition int_of_float :: "int \<Rightarrow> fault + cint" where
  "int_of_float v =
     (if - (2 ^ 31) \<le> v \<and> v < 2 ^ 31 then Inr (word_of_int v) else Inl CastOutOfRange)"

definition GetXOffsetCenter :: "cint \<Rightarrow> cint \<Rightarrow> int" where
  "GetXOffsetCenter rng offset =
     float_times
       (if 0x0 = rng then float_plus 6 (float_times (float_of_int offset) 63)
        else if 0x1 = rng then float_plus 17 (float_times (float_of_int offset) 41)
        else if 0x2 = rng then float_plus 23 (float_times (float_of_int offset) 29)
        else 0)
       4"

definition GetXOffsetLeft :: "cint \<Rightarrow> cint \<Rightarrow> int" where
  "GetXOffsetLeft rng offset =
     float_times
       (if 0x0 = rng then 0 else if 0x1 = rng then 6 else if 0x2 = rng then 17 else 0) 4"

definition GetXOffsetRight :: "cint \<Rightarrow> cint \<Rightarrow> int" where
  "GetXOffsetRight rng offset =
     float_times
       (if 0x0 = rng then 69 else if 0x1 = rng then 58 else if 0x2 = rng then 52 else 0) 4"

definition GetYOffsetCenter :: "cint \<Rightarrow> cint \<Rightarrow> int" where
  "GetYOffsetCenter rng offset =
     float_times
       (if 0x0 = rng then 8 else if 0x1 = rng then 23 else if 0x2 = rng then 32 else 0) 4"

definition GetYOffsetLeft :: "cint \<Rightarrow> cint \<Rightarrow> int" where
  "GetYOffsetLeft rng offset =
     float_times
       (if 0x0 = rng then 0 else if 0x1 = rng then 8 else if 0x2 = rng then 23 else 0) 4"

definition GetYOffsetRight :: "cint \<Rightarrow> cint \<Rightarrow> int" where
  "GetYOffsetRight rng offset =
     float_times
       (if 0x0 = rng then 0 else if 0x1 = rng then 8 else if 0x2 = rng then 23 else 0) 4"

section \<open>Drawing on a surface\<close>

text \<open>
  What a renderer does to its target surface is the list of the calls it makes, in order.
  An \<^verbatim>\<open>SDL_Rect\<close> has 16-bit fields (\<^verbatim>\<open>x\<close>, \<^verbatim>\<open>y\<close> signed; \<^verbatim>\<open>w\<close>, \<^verbatim>\<open>h\<close>
  unsigned), so an \<^verbatim>\<open>int\<close> assigned to one is cut to 16 bits.  A colour is the
  \<^verbatim>\<open>r, g, b\<close> given to \<^verbatim>\<open>SDL_MapRGB\<close>.  \<open>FillRect None c\<close> fills the whole surface.
\<close>

record SDL_Rect =
  rect_x :: "16 word"
  rect_y :: "16 word"
  rect_w :: "16 word"
  rect_h :: "16 word"

type_synonym colour = "nat \<times> nat \<times> nat"

datatype draw =
    FillRect "SDL_Rect option" colour
  | BlitSprite SDL_Surface cint cint

section \<open>MapView (MapView.h, MapView.cpp)\<close>

record MapView =
  mv_artManager :: ArtManager
  mv_viewWidth :: cint
  mv_viewHeight :: cint

definition MapView_new :: "ArtManager \<Rightarrow> MapView" where
  "MapView_new artManager =
     \<lparr>mv_artManager = artManager, mv_viewWidth = 300, mv_viewHeight = 400\<rparr>"

text \<open>
  \<^verbatim>\<open>static_cast<int>(0.6f * static_cast<float>(viewHeight_))\<close>, in tenths.  For the
  only height a \<^verbatim>\<open>MapView\<close> has, 400, the \<^verbatim>\<open>float\<close> products are 240 and 160 after
  the cast, as here.
\<close>

definition tenths :: "int \<Rightarrow> cint \<Rightarrow> cint" where
  "tenths k v = word_of_int ((k * sint v) sdiv 10)"

definition DrawSky :: "MapView \<Rightarrow> draw list" where
  "DrawSky mv =
     [FillRect (Some \<lparr>rect_x = 0, rect_y = 0,
                       rect_w = ucast (mv_viewWidth mv),
                       rect_h = ucast (tenths 6 (mv_viewHeight mv))\<rparr>) (77, 130, 229)]"

definition DrawGround :: "MapView \<Rightarrow> draw list" where
  "DrawGround mv =
     [FillRect (Some \<lparr>rect_x = 0, rect_y = ucast (tenths 6 (mv_viewHeight mv)),
                       rect_w = ucast (mv_viewWidth mv),
                       rect_h = ucast (tenths 4 (mv_viewHeight mv))\<rparr>) (16, 80, 30)]"

text \<open>
  The three wall drawers return the calls they make: one \<open>BlitSprite\<close> or none.
  \<^verbatim>\<open>Engine::BlitSprite\<close> is only reached with an image that is not null, after the
  two offsets have been cast to \<^verbatim>\<open>int\<close>.
\<close>

definition DrawLeftWall :: "MapView \<Rightarrow> Map \<Rightarrow> Position \<Rightarrow> cint \<Rightarrow> cint \<Rightarrow> fault + draw list" where
  "DrawLeftWall mv currentMap currentPosition rng offset =
     bind_err (GetWallForCoordinate currentMap (GetLeftFacingOfThis currentPosition))
       (\<lambda>nextWallNumber.
     case GetWallSetNumber (mv_artManager mv) nextWallNumber of
       None \<Rightarrow> Inr []
     | Some nextSet \<Rightarrow>
         bind_err (GetLeftImage nextSet rng) (\<lambda>nextImage.
         case nextImage of
           None \<Rightarrow> Inr []
         | Some img \<Rightarrow>
             bind_err (int_of_float (GetXOffsetLeft rng offset)) (\<lambda>destX.
             bind_err (int_of_float (GetYOffsetLeft rng offset)) (\<lambda>destY.
             Inr [BlitSprite img destX destY]))))"

definition DrawRightWall :: "MapView \<Rightarrow> Map \<Rightarrow> Position \<Rightarrow> cint \<Rightarrow> cint \<Rightarrow> fault + draw list" where
  "DrawRightWall mv currentMap currentPosition rng offset =
     bind_err (GetWallForCoordinate currentMap (GetRightFacingOfThis currentPosition))
       (\<lambda>nextWallNumber.
     case GetWallSetNumber (mv_artManager mv) nextWallNumber of
       None \<Rightarrow> Inr []
     | Some nextSet \<Rightarrow>
         bind_err (GetRightImage nextSet rng) (\<lambda>nextImage.
         case nextImage of
           None \<Rightarrow> Inr []
         | Some img \<Rightarrow>
             bind_err (int_of_float (GetXOffsetRight rng offset)) (\<lambda>destX.
             bind_err (int_of_float (GetYOffsetRight rng offset)) (\<lambda>destY.
             Inr [BlitSprite img destX destY]))))"

definition DrawStraightWall :: "MapView \<Rightarrow> Map \<Rightarrow> Position \<Rightarrow> cint \<Rightarrow> cint \<Rightarrow> fault + draw list" where
  "DrawStraightWall mv currentMap currentPosition rng offset =
     bind_err (GetWallForCoordinate currentMap currentPosition) (\<lambda>nextWallNumber.
     case GetWallSetNumber (mv_artManager mv) nextWallNumber of
       None \<Rightarrow> Inr []
     | Some nextSet \<Rightarrow>
         bind_err (GetFrontImage nextSet rng) (\<lambda>nextImage.
         case nextImage of
           None \<Rightarrow> Inr []
         | Some img \<Rightarrow>
             bind_err (int_of_float (GetXOffsetCenter rng offset)) (\<lambda>destX.
             bind_err (int_of_float (GetYOffsetCenter rng offset)) (\<lambda>destY.
             Inr [BlitSprite img destX destY]))))"

text \<open>The values \<open>hi, hi - 1, ...\<close> that \<^verbatim>\<open>for (int i = hi; i > lo; i--)\<close> runs through.\<close>

definition counter_range_down :: "cint \<Rightarrow> cint \<Rightarrow> cint list" where
  "counter_range_down hi lo = map (\<lambda>k. hi - word_of_nat k) [0..<nat (sint hi - sint lo)]"

text \<open>
  \<^verbatim>\<open>DrawDistRank\<close>: the loop to the left, the loop to the right, the three walls of the
  cell dead ahead.  The loops append what each call draws.
\<close>

definition DrawDistRank :: "MapView \<Rightarrow> Map \<Rightarrow> Position \<Rightarrow> cint \<Rightarrow> cint \<Rightarrow> fault + draw list" where
  "DrawDistRank mv currentMap currentPosition rng offset =
     (let basePoint = Copy (Position_new 0 0 0) (GetPositionAheadOfThis currentPosition rng) in
      bind_err
        (for_each (counter_range (- 1 * offset) 0) (\<lambda>i drawn.
           let pointToDraw = Copy (Position_new 0 0 0) (GetPositionLeftOfThis basePoint (- 1 * i)) in
           bind_err (DrawStraightWall mv currentMap pointToDraw rng i) (\<lambda>d. Inr (drawn @ d)))
         []) (\<lambda>drawn.
      bind_err
        (for_each (counter_range_down offset 0) (\<lambda>i drawn.
           let pointToDraw = Copy (Position_new 0 0 0) (GetPositionRightOfThis basePoint i) in
           bind_err (DrawStraightWall mv currentMap pointToDraw rng i) (\<lambda>d. Inr (drawn @ d)))
         drawn) (\<lambda>drawn.
      bind_err (DrawLeftWall mv currentMap basePoint rng 0) (\<lambda>d1.
      bind_err (DrawRightWall mv currentMap basePoint rng 0) (\<lambda>d2.
      bind_err (DrawStraightWall mv currentMap basePoint rng 0) (\<lambda>d3.
      Inr (drawn @ d1 @ d2 @ d3)))))))"

definition RenderMap :: "MapView \<Rightarrow> Map \<Rightarrow> Position \<Rightarrow> fault + draw list" where
  "RenderMap mv currentMap currentPosition =
     (let sky = DrawSky mv; ground = DrawGround mv in
      bind_err (DrawDistRank mv currentMap currentPosition 2 1) (\<lambda>far.
      bind_err (DrawDistRank mv currentMap currentPosition 1 1) (\<lambda>mid.
      bind_err (DrawDistRank mv currentMap currentPosition 0 1) (\<lambda>near.
      Inr (sky @ ground @ far @ mid @ near)))))"

section \<open>MiniMap (MiniMap.h, MiniMap.cpp)\<close>

record MiniMap =
  mm_currentMap :: "Map option"
  mm_miniMapSurface :: "SDL_Surface option"
  mm_width :: cint
  mm_height :: cint

definition playerCellColor :: colour where "playerCellColor = (255, 255, 0)"
definition notVisitedCellColor :: colour where "notVisitedCellColor = (32, 32, 32)"
definition visitedCellColor :: colour where "visitedCellColor = (0, 128, 0)"

text \<open>
  The body of the two loops of \<^verbatim>\<open>RecreateMiniMapSurface\<close>: the box of the cell is
  computed, then one of three \<^verbatim>\<open>SDL_FillRect\<close> calls fills it; they differ in the
  colour only.
\<close>

definition cell_box :: "cint \<Rightarrow> cint \<Rightarrow> cint \<Rightarrow> cint \<Rightarrow> SDL_Rect" where
  "cell_box mapCellWidth mapCellHeight row column =
     (let bx = (ucast (column * mapCellWidth) :: 16 word);
          by = (ucast (row * mapCellHeight) :: 16 word)
      in \<lparr>rect_x = bx, rect_y = by,
          rect_w = ucast ((scast bx :: cint) + mapCellWidth),
          rect_h = ucast ((scast by :: cint) + mapCellHeight)\<rparr>)"

definition cell_colour :: "Map \<Rightarrow> cint \<Rightarrow> cint \<Rightarrow> cint \<Rightarrow> cint \<Rightarrow> colour" where
  "cell_colour currentMap playerX playerZ row column =
     (if IsVisited currentMap column row
      then (if row = playerZ \<and> column = playerX then playerCellColor else visitedCellColor)
      else notVisitedCellColor)"

definition draw_cell :: "Map \<Rightarrow> cint \<Rightarrow> cint \<Rightarrow> cint \<Rightarrow> cint \<Rightarrow> cint \<Rightarrow> cint \<Rightarrow> draw" where
  "draw_cell currentMap playerX playerZ mapCellWidth mapCellHeight row column =
     FillRect (Some (cell_box mapCellWidth mapCellHeight row column))
       (cell_colour currentMap playerX playerZ row column)"

text \<open>
  \<^verbatim>\<open>RecreateMiniMapSurface\<close>.  Two things come from outside the class:
  \<open>create\<close>, the outcome of \<^verbatim>\<open>SDL_CreateRGBSurface\<close> for a width and a height, and
  \<open>game\<close>, the game state of the global engine, read for the player's position.  The
  result is the mini-map and what was drawn on its surface.
\<close>

definition RecreateMiniMapSurface ::
  "(cint \<Rightarrow> cint \<Rightarrow> SDL_Surface option) \<Rightarrow> GameState \<Rightarrow> MiniMap \<Rightarrow> fault + (MiniMap \<times> draw list)"
where
  "RecreateMiniMapSurface create game mm =
     (let mm1 = (if mm_miniMapSurface mm = None
                 then mm\<lparr>mm_miniMapSurface := create (mm_width mm) (mm_height mm)\<rparr> else mm)
      in if mm_miniMapSurface mm1 = None then Inr (mm1, [])
         else
           (case mm_currentMap mm1 of
              None \<Rightarrow> Inl NullPointer
            | Some currentMap \<Rightarrow>
                (let mapWidth = GetWidth currentMap; mapHeight = GetHeight currentMap in
                 bind_err (c_div (mm_width mm1) mapWidth) (\<lambda>mapCellWidth.
                 bind_err (c_div (mm_height mm1) mapHeight) (\<lambda>mapCellHeight.
                 let playerZ = pos_y (gs_playerPosition game);
                     playerX = pos_x (gs_playerPosition game)
                 in Inr (mm1,
                      FillRect None (0, 0, 0) #
                      concat (map (\<lambda>row.
                                map (\<lambda>column.
                                  draw_cell currentMap playerX playerZ mapCellWidth mapCellHeight
                                    row column)
                                  (counter_range 0 mapWidth))
                              (counter_range 0 mapHeight))))))))"

definition MiniMap_new ::
  "(cint \<Rightarrow> cint \<Rightarrow> SDL_Surface option) \<Rightarrow> GameState \<Rightarrow> Map option \<Rightarrow> cint \<Rightarrow> cint
     \<Rightarrow> fault + (MiniMap \<times> draw list)"
where
  "MiniMap_new create game sourceMap width height =
     RecreateMiniMapSurface create game
       \<lparr>mm_currentMap = sourceMap, mm_miniMapSurface = None,
        mm_width = (if sint width \<le> 0 then 1 else width),
        mm_height = (if sint height \<le> 0 then 1 else height)\<rparr>"

definition Update ::
  "(cint \<Rightarrow> cint \<Rightarrow> SDL_Surface option) \<Rightarrow> GameState \<Rightarrow> MiniMap \<Rightarrow> fault + (MiniMap \<times> draw list)"
where
  "Update create game mm = RecreateMiniMapSurface create game mm"

text \<open>
  The colouring rule in the words of the specification, to compare with \<open>cell_colour\<close>:
  the player colour if the cell is the player's, else the visited colour if the map says
  the cell is visited, else the unvisited colour.
\<close>

definition cell_colour_claimed :: "Map \<Rightarrow> cint \<Rightarrow> cint \<Rightarrow> cint \<Rightarrow> cint \<Rightarrow> colour" where
  "cell_colour_claimed currentMap playerX playerZ row column =
     (if column = playerX \<and> row = playerZ then playerCellColor
      else if IsVisited currentMap column row then visitedCellColor
      else notVisitedCellColor)"

section \<open>What the renderer looks at, and inputs for trying things out\<close>

text \<open>
  The faces \<^verbatim>\<open>RenderMap\<close> asks the map about, in the order of the calls: for the
  ranks 2, 1, 0 and the base point that many steps ahead, the face ahead of the cell to the
  left, the face ahead of the cell to the right, the left face, the right face and the face
  ahead of the base point.
\<close>

definition queried_faces :: "Position \<Rightarrow> Position list" where
  "queried_faces p =
     concat (map (\<lambda>r.
       let b = GetPositionAheadOfThis p r
       in [GetPositionLeftOfThis b 1, GetPositionRightOfThis b 1,
           GetLeftFacingOfThis b, GetRightFacingOfThis b, b]) [2, 1, 0])"

text \<open>
  The fifteen calls of the wall drawers \<^verbatim>\<open>RenderMap\<close> makes, in the order of the
  source: for the ranks 2, 1, 0 and the base point that many steps ahead, the straight wall
  of the cell to the left (lateral offset -1), the straight wall of the cell to the right
  (lateral offset 1), then the left, the right and the straight wall of the base point.
\<close>

definition wall_draws :: "MapView \<Rightarrow> Map \<Rightarrow> Position \<Rightarrow> (fault + draw list) list" where
  "wall_draws mv m p =
     concat (map (\<lambda>r.
       let b = GetPositionAheadOfThis p r
       in [DrawStraightWall mv m (GetPositionLeftOfThis b 1) r (- 1),
           DrawStraightWall mv m (GetPositionRightOfThis b 1) r 1,
           DrawLeftWall mv m b r 0,
           DrawRightWall mv m b r 0,
           DrawStraightWall mv m b r 0]) [2, 1, 0])"

text \<open>
  What a sequence of calls draws: the first fault, or else everything they drew, in
  order.
\<close>

fun collect :: "(fault + 'a list) list \<Rightarrow> fault + 'a list" where
  "collect [] = Inr []"
| "collect (r # rs) = bind_err r (\<lambda>d. bind_err (collect rs) (\<lambda>ds. Inr (d @ ds)))"

definition art_shape :: "ArtManager \<Rightarrow> bool" where
  "art_shape am = list_all sprite_shape (am_allWallSprites am)"

fun is_blit :: "draw \<Rightarrow> bool" where
  "is_blit (BlitSprite img x y) = True"
| "is_blit (FillRect r c) = False"

text \<open>A drawer completed and drew nothing or one blit.\<close>

definition one_blit_at_most :: "fault + draw list \<Rightarrow> bool" where
  "one_blit_at_most res =
     (case res of Inl e \<Rightarrow> False | Inr d \<Rightarrow> list_all is_blit d \<and> length d \<le> 1)"

text \<open>
  An image loader for which one file is missing, the art it loads, and the corridor with a
  stone wall between its two cells.
\<close>

definition demo_load :: "string \<Rightarrow> SDL_Surface option" where
  "demo_load path =
     (if path = ''resources/stone_wall/l0.png'' then None else Some (Surface (length path)))"

definition demo_art :: ArtManager where
  "demo_art =
     \<lparr>am_allArtLoadedSuccessfully = True,
      am_allWallSprites =
        [\<lparr>wss_frontImages = replicate 3 (Some (Surface 27)),
          wss_leftImages = replicate 3 (Some (Surface 27)),
          wss_rightImages = replicate 3 (Some (Surface 27)), wss_visibleDepth = 3\<rparr>,
         \<lparr>wss_frontImages = replicate 3 (Some (Surface 27)),
          wss_leftImages = [None, Some (Surface 27), Some (Surface 27)],
          wss_rightImages = replicate 3 (Some (Surface 27)), wss_visibleDepth = 3\<rparr>,
         \<lparr>wss_frontImages = replicate 3 (Some (Surface 26)),
          wss_leftImages = replicate 3 (Some (Surface 26)),
          wss_rightImages = replicate 3 (Some (Surface 26)), wss_visibleDepth = 3\<rparr>,
         \<lparr>wss_frontImages = replicate 3 (Some (Surface 27)),
          wss_leftImages = replicate 3 (Some (Surface 27)),
          wss_rightImages = replicate 3 (Some (Surface 27)), wss_visibleDepth = 3\<rparr>]\<rparr>"

definition walled_map :: Map where
  "walled_map =
     \<lparr>map_width = 2, map_height = 1,
      map_walls = Some [[[0, 2, 0, 0], [0, 0, 0, 2]]],
      map_passibility = Some [[[False, False, False, False], [False, False, False, False]]],
      map_startingPoints = None\<rparr>"

text \<open>
  The corridor with five walls in sight of a player in its first cell who faces East: stone
  on the North face of both cells, wood on the East face of the second cell, a wall id
  without a sprite set (9) on its South face, brick on the South face of the first cell.
\<close>

definition gallery_map :: Map where
  "gallery_map =
     \<lparr>map_width = 2, map_height = 1,
      map_walls = Some [[[2, 0, 1, 0], [2, 3, 9, 0]]],
      map_passibility = Some [[[False, False, False, False], [False, False, False, False]]],
      map_startingPoints = None\<rparr>"

text \<open>
  A loader for which the left image of rank 1 is missing, and the sprite set the
  constructor makes with it from the root path \<^verbatim>\<open>w/\<close>.
\<close>

definition demo_sprite_load :: "string \<Rightarrow> SDL_Surface option" where
  "demo_sprite_load path = (if path = ''w/l1.png'' then None else Some (Surface (length path)))"

definition demo_sprite_set :: WallSpriteSet where
  "demo_sprite_set =
     \<lparr>wss_frontImages = [Some (Surface 8), Some (Surface 8), Some (Surface 8)],
      wss_leftImages = [Some (Surface 8), None, Some (Surface 8)],
      wss_rightImages = [Some (Surface 8), Some (Surface 8), Some (Surface 8)],
      wss_visibleDepth = 3\<rparr>"

text \<open>
  A mini-map of 140 by 140 pixels over the corridor, with the player in its second cell;
  the surface can be created.
\<close>

definition demo_minimap :: MiniMap where
  "demo_minimap = \<lparr>mm_currentMap = Some corridor_map, mm_miniMapSurface = None,
                   mm_width = 140, mm_height = 140\<rparr>"

definition demo_game :: GameState where
  "demo_game = \<lparr>gs_currentMap = Some corridor_map, gs_playerPosition = Position_new 1 0 1\<rparr>"

definition demo_create :: "cint \<Rightarrow> cint \<Rightarrow> SDL_Surface option" where
  "demo_create w h = Some (Surface 0)"

section \<open>Guarded access: basic facts\<close>

lemma Copy_fields [simp]:
  "pos_x (Copy a b) = pos_x b" "pos_y (Copy a b) = pos_y b" "pos_facing (Copy a b) = pos_facing b"
  by (simp_all add: Copy_def)

lemma Position_new_fields [simp]:
  "pos_x (Position_new x y f) = x" "pos_y (Position_new x y f) = y"
  "pos_facing (Position_new x y f) = f"
  by (simp_all add: Position_new_def)

lemma c_mod_facing_values:
  "c_mod 0 4 = 0" "c_mod 1 4 = 1" "c_mod 2 4 = 2" "c_mod 3 4 = 3"
  "c_mod 4 4 = 0" "c_mod 5 4 = 1" "c_mod 6 4 = 2"
  by (simp_all add: c_mod_def smod_int_alt_def)

lemma bind_err_simps [simp]:
  "bind_err (Inr v) f = f v" "bind_err (Inl e) f = Inl e"
  by (simp_all add: bind_err_def)

lemma bind_err_Inr_iff:
  "bind_err r f = Inr y \<longleftrightarrow> (\<exists>v. r = Inr v \<and> f v = Inr y)"
  by (cases r) simp_all

lemma sint_nat_inj:
  "nat (sint a) = nat (sint b) \<longleftrightarrow> a = b" if "0 \<le> sint (a::cint)" "0 \<le> sint (b::cint)"
proof
  assume "nat (sint a) = nat (sint b)"
  with that have "sint a = sint b" by linarith
  then show "a = b" by (rule signed_word_eqI)
qed simp

lemma index_ok:
  "0 \<le> sint i \<Longrightarrow> nat (sint i) < length xs \<Longrightarrow> index xs i = Inr (xs ! nat (sint i))"
  by (simp add: index_def)

lemma store_ok:
  "0 \<le> sint i \<Longrightarrow> nat (sint i) < length xs \<Longrightarrow> store xs i v = Inr (xs[nat (sint i) := v])"
  by (simp add: store_def)

lemma sint_facing:
  "is_facing f \<Longrightarrow> 0 \<le> sint f \<and> nat (sint f) < 4"
  by (auto simp: is_facing_def)

lemma table_shape_nth:
  assumes "table_shape w h (Some rows)" "in_map w h x y"
  shows "nat (sint y) < length rows"
    and "nat (sint x) < length (rows ! nat (sint y))"
    and "length (rows ! nat (sint y) ! nat (sint x)) = 4"
  using assms
  by (auto simp: table_shape_def in_map_def list_all_length)

lemma table_get_ok:
  assumes "table_shape w h t" "in_map w h x y" "is_facing f"
  shows "\<exists>rows. t = Some rows \<and> table_get t y x f = Inr (rows ! nat (sint y) ! nat (sint x) ! nat (sint f))"
proof -
  from assms(1) obtain rows where t: "t = Some rows" by (cases t) (auto simp: table_shape_def)
  note sh = table_shape_nth [OF assms(1)[unfolded t] assms(2)]
  from assms(2) have nn: "0 \<le> sint x" "0 \<le> sint y" by (auto simp: in_map_def)
  show ?thesis using t sh nn sint_facing[OF assms(3)]
    by (simp add: table_get_def index_ok)
qed

lemma table_set_ok:
  assumes "table_shape w h t" "in_map w h x y" "is_facing f"
  shows "\<exists>t'. table_set t y x f v = Inr t' \<and> table_shape w h t'
           \<and> table_get t' y x f = Inr v
           \<and> (\<forall>y' x' f'. (y', x', f') \<noteq> (y, x, f) \<longrightarrow> table_get t' y' x' f' = table_get t y' x' f')"
proof -
  from assms(1) obtain rows where t: "t = Some rows" by (cases t) (auto simp: table_shape_def)
  note sh = table_shape_nth [OF assms(1)[unfolded t] assms(2)]
  from assms(2) have nn: "0 \<le> sint x" "0 \<le> sint y" by (auto simp: in_map_def)
  note fo = sint_facing[OF assms(3)]
  let ?ny = "nat (sint y)" and ?nx = "nat (sint x)" and ?nf = "nat (sint f)"
  let ?rows' = "rows[?ny := (rows ! ?ny)[?nx := (rows ! ?ny ! ?nx)[?nf := v]]]"
  have set: "table_set t y x f v = Inr (Some ?rows')"
    using t sh nn fo by (simp add: table_set_def index_ok store_ok)
  have shape: "table_shape w h (Some ?rows')"
    using assms(1) t sh
    by (auto simp: table_shape_def list_all_length nth_list_update)
  have get: "table_get (Some ?rows') y x f = Inr v"
    using sh nn fo by (simp add: table_get_def index_ok)
  have other: "table_get (Some ?rows') y' x' f' = table_get t y' x' f'"
    if "(y', x', f') \<noteq> (y, x, f)" for y' x' f'
    using that t sh nn fo
    by (auto simp: table_get_def index_def nth_list_update sint_nat_inj bind_err_def
             split: if_splits)
  show ?thesis using set shape get other by blast
qed

lemma sint_succ:
  "sint (a + 1) = sint a + 1" if "sint (a::cint) < sint (b::cint)"
proof -
  have "sint b < 2 ^ 31" using sint_lt [of b] by simp
  moreover have "- (2 ^ 31) \<le> sint a" using sint_ge [of a] by simp
  ultimately have "signed_take_bit 31 (sint a + 1) = sint a + 1"
    using that by (intro signed_take_bit_int_eq_self) auto
  then show ?thesis by (simp add: sint_word_add)
qed

lemma sint_pred:
  "sint (a - 1) = sint a - 1" if "0 \<le> sint (a::cint)"
proof -
  have "sint a < 2 ^ 31" using sint_lt [of a] by simp
  then have "signed_take_bit 31 (sint a - 1) = sint a - 1"
    using that by (intro signed_take_bit_int_eq_self) auto
  then show ?thesis by (simp add: sint_word_diff)
qed

lemma is_facing_rotated:
  "is_facing f \<Longrightarrow> is_facing (c_mod (f + 1) 4) \<and> is_facing (c_mod (f + 2) 4) \<and> is_facing (c_mod (f + 3) 4)"
  by (auto simp: is_facing_def c_mod_facing_values)

lemma Copy_eq [simp]: "Copy (a::Position) b = b"
  by (simp add: Copy_def)

lemma step_facing [simp]:
  "pos_facing (GetPositionAheadOfThis p n) = pos_facing p"
  "pos_facing (GetPositionLeftOfThis p n) = pos_facing p"
  "pos_facing (GetPositionRightOfThis p n) = pos_facing p"
  by (simp_all add: GetPositionAheadOfThis_def GetPositionLeftOfThis_def
        GetPositionRightOfThis_def split: prod.splits)

lemma turn_facing:
  "is_facing (pos_facing p) \<Longrightarrow> is_facing (pos_facing (GetLeftFacingOfThis p))"
  "is_facing (pos_facing p) \<Longrightarrow> is_facing (pos_facing (GetRightFacingOfThis p))"
  by (simp_all add: GetLeftFacingOfThis_def GetRightFacingOfThis_def is_facing_rotated)

lemma GetWall_built:
  assumes "in_map (map_width m) (map_height m) (pos_x p) (pos_y p)"
  shows "GetWallForCoordinate m p = table_get (map_walls m) (pos_y p) (pos_x p) (pos_facing p)"
  using assms by (simp add: GetWallForCoordinate_def in_map_def)

lemma CanPass_built:
  assumes "in_map (map_width m) (map_height m) (pos_x p) (pos_y p)"
  shows "CanPassWallForCoordinate m p = table_get (map_passibility m) (pos_y p) (pos_x p) (pos_facing p)"
  using assms by (simp add: CanPassWallForCoordinate_def in_map_def)

lemma CanPass_total:
  assumes "built_map m" "is_facing (pos_facing p)"
  shows "\<exists>pass. CanPassWallForCoordinate m p = Inr pass
           \<and> (pass \<longrightarrow> in_map (map_width m) (map_height m) (pos_x p) (pos_y p))"
proof (cases "in_map (map_width m) (map_height m) (pos_x p) (pos_y p)")
  case True
  from assms(1) have "table_shape (map_width m) (map_height m) (map_passibility m)"
    by (simp add: built_map_def)
  from table_get_ok [OF this True assms(2)] True show ?thesis
    by (auto simp: CanPass_built)
next
  case False
  then show ?thesis by (auto simp: CanPassWallForCoordinate_def in_map_def)
qed

lemma for_each_invariant:
  assumes "for_each is body s = Inr s'" and "P s"
    and "\<And>i s s'. i \<in> set is \<Longrightarrow> P s \<Longrightarrow> body i s = Inr s' \<Longrightarrow> P s'"
  shows "P s'"
  using assms
proof (induction "is" arbitrary: s)
  case Nil
  then show ?case by simp
next
  case (Cons i "is")
  from Cons.prems(1) obtain s1 where s1: "body i s = Inr s1" and rest: "for_each is body s1 = Inr s'"
    by (auto split: sum.splits)
  from Cons.prems(3) [OF _ Cons.prems(2) s1] have "P s1" by simp
  show ?case
    by (rule Cons.IH [OF rest \<open>P s1\<close>]) (auto intro: Cons.prems(3))
qed

lemma store_length: "store xs i v = Inr ys \<Longrightarrow> length ys = length xs"
  by (auto simp: store_def split: if_splits)

section \<open>Properties of Position\<close>

text \<open>
  Claim C5.  For each of the four facings and every position \<open>p\<close> with that facing:
  turning left and then right gives back the facing of \<open>p\<close>, turning left four times
  gives back the facing of \<open>p\<close>, and neither rotation changes \<open>x\<close> or \<open>y\<close>.
\<close>

theorem rotations_inverse_and_cyclic:
  assumes "is_facing (pos_facing p)"
  shows "pos_facing (GetRightFacingOfThis (GetLeftFacingOfThis p)) = pos_facing p
       \<and> pos_facing (GetLeftFacingOfThis (GetLeftFacingOfThis
            (GetLeftFacingOfThis (GetLeftFacingOfThis p)))) = pos_facing p
       \<and> pos_x (GetLeftFacingOfThis p) = pos_x p \<and> pos_y (GetLeftFacingOfThis p) = pos_y p
       \<and> pos_x (GetRightFacingOfThis p) = pos_x p \<and> pos_y (GetRightFacingOfThis p) = pos_y p"
proof -
  from assms consider "pos_facing p = 0" | "pos_facing p = 1" | "pos_facing p = 2" | "pos_facing p = 3"
    unfolding is_facing_def by blast
  then show ?thesis
    by cases
      (simp_all add: GetLeftFacingOfThis_def GetRightFacingOfThis_def Position_new_def
         c_mod_facing_values)
qed

theorem rotations_inverse_and_cyclic_witness:
  "is_facing (pos_facing (Position_new 4 7 0))
   \<and> pos_facing (GetRightFacingOfThis (GetLeftFacingOfThis (Position_new 4 7 0))) = 0
   \<and> pos_facing (GetLeftFacingOfThis (Position_new 4 7 0)) = 3"
  using rotations_inverse_and_cyclic [of "Position_new 4 7 0"]
  by (simp add: is_facing_def Position_new_def GetLeftFacingOfThis_def c_mod_facing_values)

text \<open>
  Claim C6.  For every position \<open>p\<close> (whatever its facing) and every step count \<open>n\<close>:
  stepping \<open>n\<close> ahead and then \<open>n\<close> behind gives back \<open>x\<close> and \<open>y\<close> of \<open>p\<close>, and both
  steps keep the facing.  The arithmetic is that of 32-bit \<^verbatim>\<open>int\<close>, wrap-around
  included.
\<close>

theorem ahead_behind_inverse:
  "pos_x (GetPositionBehindThis (GetPositionAheadOfThis p n) n) = pos_x p
   \<and> pos_y (GetPositionBehindThis (GetPositionAheadOfThis p n) n) = pos_y p
   \<and> pos_facing (GetPositionAheadOfThis p n) = pos_facing p
   \<and> pos_facing (GetPositionBehindThis p n) = pos_facing p"
  by (simp add: GetPositionAheadOfThis_def GetPositionBehindThis_def Position_new_def)

section \<open>The map\<close>

lemma length_counter_range [simp]: "length (counter_range 0 n) = nat (sint n)"
  by (simp add: counter_range_def)

lemma index_map_counter_range:
  "index (map g (counter_range 0 n)) i = Inr (g i)" if "0 \<le> sint i" "sint i < sint n"
proof -
  have "nat (sint i) < nat (sint n)" using that by linarith
  moreover have "word_of_nat (nat (sint i)) = i" using that(1) by simp
  ultimately show ?thesis using that(1)
    by (simp add: index_def counter_range_def)
qed

lemma table_get_map_counter_range:
  assumes "in_map w h x y"
  shows "table_get (Some (map (\<lambda>row. map (\<lambda>column. g row column) (counter_range 0 w))
                            (counter_range 0 h))) y x f = index (g y x) f"
  using assms by (simp add: table_get_def in_map_def index_map_counter_range)

lemma clear_passibility_cell_eq:
  "clear_passibility_cell w h row column = [0 \<noteq> row, w - 1 \<noteq> column, h - 1 \<noteq> row, 0 \<noteq> column]"
  by (simp add: clear_passibility_cell_def numeral_eq_Suc)

lemma clear_walls_cell_eq: "clear_walls_cell = [0, 0, 0, 0]"
  by (simp add: clear_walls_cell_def numeral_eq_Suc)

lemma index_facing:
  "is_facing f \<Longrightarrow> index [a, b, c, d] f = Inr (if f = 0 then a else if f = 1 then b else if f = 2 then c else d)"
  by (auto simp: is_facing_def index_def)

lemma ClearMap_result:
  assumes "ClearMap m = Inr m'"
  shows "m' = m\<lparr>map_walls :=
                Some (map (\<lambda>row. map (\<lambda>column. clear_walls_cell) (counter_range 0 (map_width m)))
                        (counter_range 0 (map_height m))),
             map_passibility :=
                Some (map (\<lambda>row. map (\<lambda>column.
                              clear_passibility_cell (map_width m) (map_height m) row column)
                                    (counter_range 0 (map_width m)))
                        (counter_range 0 (map_height m))),
             map_startingPoints := None\<rparr>"
  using assms by (auto simp: ClearMap_def Let_def bind_err_Inr_iff)

lemma ClearMap_built:
  assumes "ClearMap m = Inr m'"
  shows "built_map m' \<and> map_width m' = map_width m \<and> map_height m' = map_height m
         \<and> map_startingPoints m' = None"
  unfolding ClearMap_result [OF assms]
  by (simp add: built_map_def table_shape_def list_all_iff clear_walls_cell_eq
        clear_passibility_cell_eq)

lemma corridor_map_cleared:
  "ClearMap (Map_new\<lparr>map_width := 2, map_height := 1\<rparr>) = Inr corridor_map"
  by code_simp

lemma corridor_map_built: "built_map corridor_map"
  by code_simp

text \<open>
  Claim C3.  After a \<^verbatim>\<open>ClearMap\<close> that completes, widths and heights are kept and,
  for every cell \<open>(x, y)\<close> of the grid and each of the four faces: the wall id is 0, and
  the face is impassable exactly when it is face 3 (West) of column 0, face 0 (North) of
  row 0, face 1 (East) of the last column or face 2 (South) of the last row.
\<close>

theorem ClearMap_border:
  assumes "ClearMap m = Inr m'"
    and "in_map (map_width m) (map_height m) (pos_x p) (pos_y p)"
    and "is_facing (pos_facing p)"
  shows "CanPassWallForCoordinate m' p =
           Inr (\<not> (pos_facing p = 3 \<and> pos_x p = 0
                  \<or> pos_facing p = 0 \<and> pos_y p = 0
                  \<or> pos_facing p = 1 \<and> pos_x p = map_width m - 1
                  \<or> pos_facing p = 2 \<and> pos_y p = map_height m - 1))
       \<and> GetWallForCoordinate m' p = Inr 0
       \<and> map_width m' = map_width m \<and> map_height m' = map_height m"
proof -
  note inm = assms(2)
  have cp: "CanPassWallForCoordinate m' p =
      index (clear_passibility_cell (map_width m) (map_height m) (pos_y p) (pos_x p)) (pos_facing p)"
    unfolding ClearMap_result [OF assms(1)]
    using inm table_get_map_counter_range [OF inm,
        of "clear_passibility_cell (map_width m) (map_height m)" "pos_facing p"]
    by (simp add: CanPassWallForCoordinate_def in_map_def)
  have gw: "GetWallForCoordinate m' p = index clear_walls_cell (pos_facing p)"
    unfolding ClearMap_result [OF assms(1)]
    using inm table_get_map_counter_range [OF inm, of "\<lambda>row column. clear_walls_cell" "pos_facing p"]
    by (simp add: GetWallForCoordinate_def in_map_def)
  from assms(3) consider "pos_facing p = 0" | "pos_facing p = 1" | "pos_facing p = 2" | "pos_facing p = 3"
    unfolding is_facing_def by blast
  then have "CanPassWallForCoordinate m' p =
           Inr (\<not> (pos_facing p = 3 \<and> pos_x p = 0
                  \<or> pos_facing p = 0 \<and> pos_y p = 0
                  \<or> pos_facing p = 1 \<and> pos_x p = map_width m - 1
                  \<or> pos_facing p = 2 \<and> pos_y p = map_height m - 1))
       \<and> GetWallForCoordinate m' p = Inr 0"
    unfolding cp gw clear_passibility_cell_eq clear_walls_cell_eq
    by cases (auto simp: index_facing is_facing_def)
  then show ?thesis using ClearMap_built [OF assms(1)] by simp
qed

theorem ClearMap_border_witness:
  "ClearMap (Map_new\<lparr>map_width := 2, map_height := 1\<rparr>) = Inr corridor_map
   \<and> in_map (map_width (Map_new\<lparr>map_width := 2, map_height := 1\<rparr>))
        (map_height (Map_new\<lparr>map_width := 2, map_height := 1\<rparr>))
        (pos_x (Position_new 1 0 1)) (pos_y (Position_new 1 0 1))
   \<and> is_facing (pos_facing (Position_new 1 0 1))
   \<and> CanPassWallForCoordinate corridor_map (Position_new 1 0 1) = Inr False
   \<and> CanPassWallForCoordinate corridor_map (Position_new 1 0 3) = Inr True
   \<and> GetWallForCoordinate corridor_map (Position_new 1 0 1) = Inr 0"
proof -
  let ?m = "Map_new\<lparr>map_width := 2, map_height := 1\<rparr>"
  have h1: "ClearMap ?m = Inr corridor_map" by (rule corridor_map_cleared)
  have h2: "in_map (map_width ?m) (map_height ?m) (pos_x (Position_new 1 0 f)) (pos_y (Position_new 1 0 f))"
    for f by (simp add: in_map_def Map_new_def)
  have h3: "is_facing (pos_facing (Position_new 1 0 1))" "is_facing (pos_facing (Position_new 1 0 3))"
    by (simp_all add: is_facing_def)
  from ClearMap_border [OF h1 h2 h3(1)] ClearMap_border [OF h1 h2 h3(2)] h1 h2 [of 1] h3(1)
  show ?thesis by (simp add: Map_new_def)
qed

text \<open>
  Claim C2.  On a built map, for a position \<open>p\<close> in the grid with one of the four
  facings and any wall id: when the cell one step ahead of \<open>p\<close> is in the grid too,
  \<^verbatim>\<open>MakeNormalWall\<close> completes, and afterwards \<^verbatim>\<open>GetWallForCoordinate\<close> gives the
  id and \<^verbatim>\<open>CanPassWallForCoordinate\<close> gives false at \<open>p\<close> and at the face
  \<open>(facing + 2) mod 4\<close> of the cell ahead.
\<close>

theorem MakeNormalWall_bilateral:
  assumes built: "built_map m"
    and here: "in_map (map_width m) (map_height m) (pos_x p) (pos_y p)"
    and facing: "is_facing (pos_facing p)"
    and ahead: "in_map (map_width m) (map_height m)
                  (pos_x (GetPositionAheadOfThis p 1)) (pos_y (GetPositionAheadOfThis p 1))"
  shows "\<exists>m'. MakeNormalWall p wallID m = Inr m'
           \<and> built_map m' \<and> map_width m' = map_width m \<and> map_height m' = map_height m
           \<and> GetWallForCoordinate m' p = Inr wallID
           \<and> CanPassWallForCoordinate m' p = Inr False
           \<and> GetWallForCoordinate m'
                (Position_new (pos_x (GetPositionAheadOfThis p 1)) (pos_y (GetPositionAheadOfThis p 1))
                   (c_mod (pos_facing p + 2) 4)) = Inr wallID
           \<and> CanPassWallForCoordinate m'
                (Position_new (pos_x (GetPositionAheadOfThis p 1)) (pos_y (GetPositionAheadOfThis p 1))
                   (c_mod (pos_facing p + 2) 4)) = Inr False"
proof -
  let ?w = "map_width m" and ?h = "map_height m"
  let ?a = "GetPositionAheadOfThis p 1"
  let ?nf = "c_mod (pos_facing p + 2) 4"
  let ?q = "Position_new (pos_x ?a) (pos_y ?a) ?nf"
  from built have sw: "table_shape ?w ?h (map_walls m)" and sp: "table_shape ?w ?h (map_passibility m)"
    by (simp_all add: built_map_def)
  from facing have nf: "is_facing ?nf" by (simp add: is_facing_rotated)
  from table_set_ok [OF sw here facing, of wallID] obtain w1 where
    w1: "table_set (map_walls m) (pos_y p) (pos_x p) (pos_facing p) wallID = Inr w1"
    and sw1: "table_shape ?w ?h w1"
    and gw1: "table_get w1 (pos_y p) (pos_x p) (pos_facing p) = Inr wallID"
    by blast
  from table_set_ok [OF sp here facing, of False] obtain p1 where
    p1: "table_set (map_passibility m) (pos_y p) (pos_x p) (pos_facing p) False = Inr p1"
    and sp1: "table_shape ?w ?h p1"
    and gp1: "table_get p1 (pos_y p) (pos_x p) (pos_facing p) = Inr False"
    by blast
  from table_set_ok [OF sw1 ahead nf, of wallID] obtain w2 where
    w2: "table_set w1 (pos_y ?a) (pos_x ?a) ?nf wallID = Inr w2"
    and sw2: "table_shape ?w ?h w2"
    and gw2: "table_get w2 (pos_y ?a) (pos_x ?a) ?nf = Inr wallID"
    and ow2: "\<And>y' x' f'. (y', x', f') \<noteq> (pos_y ?a, pos_x ?a, ?nf)
                \<Longrightarrow> table_get w2 y' x' f' = table_get w1 y' x' f'"
    by blast
  from table_set_ok [OF sp1 ahead nf, of False] obtain p2 where
    p2: "table_set p1 (pos_y ?a) (pos_x ?a) ?nf False = Inr p2"
    and sp2: "table_shape ?w ?h p2"
    and gp2: "table_get p2 (pos_y ?a) (pos_x ?a) ?nf = Inr False"
    and op2: "\<And>y' x' f'. (y', x', f') \<noteq> (pos_y ?a, pos_x ?a, ?nf)
                \<Longrightarrow> table_get p2 y' x' f' = table_get p1 y' x' f'"
    by blast
  let ?m' = "m\<lparr>map_walls := w2, map_passibility := p2\<rparr>"
  from ahead have inb: "InBounds (Copy (Position_new 0 0 0) ?a) 0 0 ?w ?h True"
    by (simp add: InBounds_def in_map_def)
  have made: "MakeNormalWall p wallID m = Inr ?m'"
    using w1 p1 w2 p2 inb by (simp add: MakeNormalWall_def Let_def)
  have b': "built_map ?m'" using sw2 sp2 by (simp add: built_map_def)
  have here': "in_map (map_width ?m') (map_height ?m') (pos_x p) (pos_y p)" using here by simp
  have ahead': "in_map (map_width ?m') (map_height ?m') (pos_x ?q) (pos_y ?q)" using ahead by simp
  have "table_get w2 (pos_y p) (pos_x p) (pos_facing p) = Inr wallID"
    using gw1 gw2 ow2 [of "pos_y p" "pos_x p" "pos_facing p"]
    by (cases "(pos_y p, pos_x p, pos_facing p) = (pos_y ?a, pos_x ?a, ?nf)") auto
  then have g1: "GetWallForCoordinate ?m' p = Inr wallID"
    by (simp add: GetWall_built [OF here'])
  have "table_get p2 (pos_y p) (pos_x p) (pos_facing p) = Inr False"
    using gp1 gp2 op2 [of "pos_y p" "pos_x p" "pos_facing p"]
    by (cases "(pos_y p, pos_x p, pos_facing p) = (pos_y ?a, pos_x ?a, ?nf)") auto
  then have c1: "CanPassWallForCoordinate ?m' p = Inr False"
    by (simp add: CanPass_built [OF here'])
  have g2: "GetWallForCoordinate ?m' ?q = Inr wallID"
    using gw2 by (simp add: GetWall_built [OF ahead'])
  have c2: "CanPassWallForCoordinate ?m' ?q = Inr False"
    using gp2 by (simp add: CanPass_built [OF ahead'])
  from made b' g1 c1 g2 c2 show ?thesis
    by (intro exI [of _ ?m']) simp
qed

theorem MakeNormalWall_bilateral_witness:
  "built_map corridor_map
   \<and> in_map (map_width corridor_map) (map_height corridor_map)
        (pos_x (Position_new 0 0 1)) (pos_y (Position_new 0 0 1))
   \<and> is_facing (pos_facing (Position_new 0 0 1))
   \<and> in_map (map_width corridor_map) (map_height corridor_map)
        (pos_x (GetPositionAheadOfThis (Position_new 0 0 1) 1))
        (pos_y (GetPositionAheadOfThis (Position_new 0 0 1) 1))
   \<and> (\<exists>m'. MakeNormalWall (Position_new 0 0 1) 2 corridor_map = Inr m'
         \<and> GetWallForCoordinate m' (Position_new 0 0 1) = Inr 2
         \<and> CanPassWallForCoordinate m' (Position_new 0 0 1) = Inr False
         \<and> GetWallForCoordinate m' (Position_new 1 0 3) = Inr 2
         \<and> CanPassWallForCoordinate m' (Position_new 1 0 3) = Inr False)"
proof -
  let ?p = "Position_new 0 0 1"
  have h2: "in_map (map_width corridor_map) (map_height corridor_map) (pos_x ?p) (pos_y ?p)"
    by (simp add: in_map_def corridor_map_def)
  have h3: "is_facing (pos_facing ?p)"
    by (simp add: is_facing_def)
  have ahead: "GetPositionAheadOfThis ?p 1 = Position_new 1 0 1"
    by (simp add: GetPositionAheadOfThis_def)
  have h4: "in_map (map_width corridor_map) (map_height corridor_map)
              (pos_x (GetPositionAheadOfThis ?p 1)) (pos_y (GetPositionAheadOfThis ?p 1))"
    unfolding ahead by (simp add: in_map_def corridor_map_def)
  from MakeNormalWall_bilateral [OF corridor_map_built h2 h3 h4, of 2]
  have "\<exists>m'. MakeNormalWall ?p 2 corridor_map = Inr m'
         \<and> GetWallForCoordinate m' ?p = Inr 2
         \<and> CanPassWallForCoordinate m' ?p = Inr False
         \<and> GetWallForCoordinate m' (Position_new 1 0 3) = Inr 2
         \<and> CanPassWallForCoordinate m' (Position_new 1 0 3) = Inr False"
    unfolding ahead by (auto simp: c_mod_facing_values)
  with corridor_map_built h2 h3 h4 show ?thesis by blast
qed

section \<open>Movement\<close>

text \<open>
  Claim C1.  In a game state whose map is built and whose player faces one of the four
  facings, \<^verbatim>\<open>MovePlayerForward\<close> returns what \<^verbatim>\<open>CanPassWallForCoordinate\<close>
  says of the player's position at the time of the call.  When that is false the state is
  unchanged.  When it is true only the player's position changes: the facing is kept and
  \<open>(x, y)\<close> moves by one, as integers, along the axis of the facing (North \<open>y - 1\<close>,
  East \<open>x + 1\<close>, South \<open>y + 1\<close>, West \<open>x - 1\<close>).
\<close>

theorem MovePlayerForward_gating:
  assumes "gs_currentMap g = Some m" and "built_map m"
    and "is_facing (pos_facing (gs_playerPosition g))"
  shows "\<exists>pass g'.
       CanPassWallForCoordinate m (gs_playerPosition g) = Inr pass
     \<and> MovePlayerForward g = Inr (pass, g')
     \<and> (\<not> pass \<longrightarrow> g' = g)
     \<and> (pass \<longrightarrow>
          g' = g\<lparr>gs_playerPosition := gs_playerPosition g'\<rparr>
        \<and> pos_facing (gs_playerPosition g') = pos_facing (gs_playerPosition g)
        \<and> (sint (pos_x (gs_playerPosition g')), sint (pos_y (gs_playerPosition g'))) =
            (if pos_facing (gs_playerPosition g) = 0
               then (sint (pos_x (gs_playerPosition g)), sint (pos_y (gs_playerPosition g)) - 1)
             else if pos_facing (gs_playerPosition g) = 1
               then (sint (pos_x (gs_playerPosition g)) + 1, sint (pos_y (gs_playerPosition g)))
             else if pos_facing (gs_playerPosition g) = 2
               then (sint (pos_x (gs_playerPosition g)), sint (pos_y (gs_playerPosition g)) + 1)
             else (sint (pos_x (gs_playerPosition g)) - 1, sint (pos_y (gs_playerPosition g)))))"
proof -
  let ?p = "gs_playerPosition g"
  from CanPass_total [OF assms(2,3)] obtain pass
    where pass: "CanPassWallForCoordinate m ?p = Inr pass"
      and inb: "pass \<Longrightarrow> in_map (map_width m) (map_height m) (pos_x ?p) (pos_y ?p)"
    by blast
  show ?thesis
  proof (cases pass)
    case False
    with pass assms(1) have "MovePlayerForward g = Inr (pass, g)"
      by (simp add: MovePlayerForward_def)
    with pass False show ?thesis by blast
  next
    case True
    from inb [OF True] have b: "0 \<le> sint (pos_x ?p)" "sint (pos_x ?p) < sint (map_width m)"
      "0 \<le> sint (pos_y ?p)" "sint (pos_y ?p) < sint (map_height m)"
      by (auto simp: in_map_def)
    note steps = sint_succ [OF b(2)] sint_succ [OF b(4)] sint_pred [OF b(1)] sint_pred [OF b(3)]
    let ?p' = "Copy ?p (GetPositionAheadOfThis ?p 1)"
    let ?g' = "g\<lparr>gs_playerPosition := ?p'\<rparr>"
    have mv: "MovePlayerForward g = Inr (pass, ?g')"
      using pass True assms(1) by (simp add: MovePlayerForward_def)
    from assms(3) consider "pos_facing ?p = 0" | "pos_facing ?p = 1" | "pos_facing ?p = 2" | "pos_facing ?p = 3"
      unfolding is_facing_def by blast
    then have moved: "pos_facing ?p' = pos_facing ?p \<and> (sint (pos_x ?p'), sint (pos_y ?p')) =
                   (if pos_facing ?p = 0 then (sint (pos_x ?p), sint (pos_y ?p) - 1)
                    else if pos_facing ?p = 1 then (sint (pos_x ?p) + 1, sint (pos_y ?p))
                    else if pos_facing ?p = 2 then (sint (pos_x ?p), sint (pos_y ?p) + 1)
                    else (sint (pos_x ?p) - 1, sint (pos_y ?p)))"
      by cases (simp_all add: Copy_def GetPositionAheadOfThis_def Position_new_def steps)
    have "gs_playerPosition ?g' = ?p'" "?g' = g\<lparr>gs_playerPosition := gs_playerPosition ?g'\<rparr>"
      by simp_all
    with mv pass True moved show ?thesis by metis
  qed
qed

theorem MovePlayerForward_gating_witness:
  "gs_currentMap \<lparr>gs_currentMap = Some corridor_map, gs_playerPosition = Position_new 0 0 1\<rparr>
     = Some corridor_map
   \<and> built_map corridor_map
   \<and> is_facing (pos_facing (gs_playerPosition
        \<lparr>gs_currentMap = Some corridor_map, gs_playerPosition = Position_new 0 0 1\<rparr>))
   \<and> (\<exists>g'. MovePlayerForward
               \<lparr>gs_currentMap = Some corridor_map, gs_playerPosition = Position_new 0 0 1\<rparr>
             = Inr (True, g')
           \<and> pos_facing (gs_playerPosition g') = 1
           \<and> sint (pos_x (gs_playerPosition g')) = 1
           \<and> sint (pos_y (gs_playerPosition g')) = 0)"
proof -
  let ?g = "\<lparr>gs_currentMap = Some corridor_map, gs_playerPosition = Position_new 0 0 1\<rparr>"
  have h1: "gs_currentMap ?g = Some corridor_map" by simp
  have h3: "is_facing (pos_facing (gs_playerPosition ?g))" by (simp add: is_facing_def)
  have pass: "CanPassWallForCoordinate corridor_map (gs_playerPosition ?g) = Inr True"
    by (simp add: CanPassWallForCoordinate_def corridor_map_def table_get_def index_def)
  from MovePlayerForward_gating [OF h1 corridor_map_built h3] pass
  have "\<exists>g'. MovePlayerForward ?g = Inr (True, g')
           \<and> pos_facing (gs_playerPosition g') = 1
           \<and> sint (pos_x (gs_playerPosition g')) = 1
           \<and> sint (pos_y (gs_playerPosition g')) = 0"
    by auto
  with h1 corridor_map_built h3 show ?thesis by blast
qed

section \<open>The facing as an index, and the mockup\<close>

lemma facing_index_iff:
  "(0 \<le> sint f \<and> nat (sint f) < 4) \<longleftrightarrow> is_facing (f::cint)"
proof
  assume a: "0 \<le> sint f \<and> nat (sint f) < 4"
  then have "sint f = 0 \<or> sint f = 1 \<or> sint f = 2 \<or> sint f = 3" by linarith
  then have "sint f = sint (0::cint) \<or> sint f = sint (1::cint) \<or> sint f = sint (2::cint)
      \<or> sint f = sint (3::cint)" by simp
  then show "is_facing f" unfolding is_facing_def by (blast intro: signed_word_eqI)
qed (simp add: sint_facing)

lemma table_get_facing_iff:
  assumes "table_shape w h t" "in_map w h x y"
  shows "table_get t y x f = Inl IndexOutOfRange \<longleftrightarrow> \<not> is_facing f"
    and "(\<exists>v. table_get t y x f = Inr v) \<longleftrightarrow> is_facing f"
proof -
  from assms(1) obtain rows where t: "t = Some rows" by (cases t) (auto simp: table_shape_def)
  note sh = table_shape_nth [OF assms(1)[unfolded t] assms(2)]
  from assms(2) have nn: "0 \<le> sint x" "0 \<le> sint y" by (auto simp: in_map_def)
  have "table_get t y x f = index (rows ! nat (sint y) ! nat (sint x)) f"
    using t sh nn by (simp add: table_get_def index_ok)
  then show "table_get t y x f = Inl IndexOutOfRange \<longleftrightarrow> \<not> is_facing f"
    and "(\<exists>v. table_get t y x f = Inr v) \<longleftrightarrow> is_facing f"
    using sh(3) facing_index_iff [of f] by (auto simp: index_def)
qed

lemma table_set_bad_facing:
  assumes "table_shape w h t" "in_map w h x y" "\<not> is_facing f"
  shows "table_set t y x f v = Inl IndexOutOfRange"
proof -
  from assms(1) obtain rows where t: "t = Some rows" by (cases t) (auto simp: table_shape_def)
  note sh = table_shape_nth [OF assms(1)[unfolded t] assms(2)]
  from assms(2) have nn: "0 \<le> sint x" "0 \<le> sint y" by (auto simp: in_map_def)
  show ?thesis using t sh nn assms(3) facing_index_iff [of f]
    by (auto simp: table_set_def index_ok store_def)
qed

lemma WALL_FACING_NORTH_not_facing: "\<not> is_facing WALL_FACING_NORTH"
  by (simp add: is_facing_def WALL_FACING_NORTH_def)

lemma MakeMockup_faults: "MakeMockup Map_new = Inl IndexOutOfRange"
  by code_simp

lemma mockup_fault_site:
  "(case bind_err (ClearMap (Map_new\<lparr>map_width := 0xA, map_height := 0xA\<rparr>)) (\<lambda>m.
          mockup_border_rows (m\<lparr>map_startingPoints := Some [Position_new 1 1 PLAYER_FACING_EAST]\<rparr>))
    of Inl e \<Rightarrow> False
     | Inr m \<Rightarrow>
        built_map m \<and> map_width m = 10 \<and> map_height m = 10 \<and>
        (case MakeNormalWall (Position_new 0 0 WALL_FACING_SOUTH) WALL_TYPE_STONE m
         of Inl e \<Rightarrow> False
          | Inr m1 \<Rightarrow>
             built_map m1 \<and>
             MakeNormalWall (Position_new 0 (map_height m1 - 1) WALL_FACING_NORTH) WALL_TYPE_STONE m1
               = Inl IndexOutOfRange))"
  by code_simp

text \<open>
  Claim C10.  The facing of a position indexes the four faces of a cell with no check.
  On a built map and for a cell of the grid, \<^verbatim>\<open>GetWallForCoordinate\<close> and
  \<^verbatim>\<open>CanPassWallForCoordinate\<close> read in bounds exactly when the facing is one of 0, 1,
  2, 3, and fault otherwise; \<^verbatim>\<open>MakeNormalWall\<close> and \<^verbatim>\<open>RemoveWall\<close> fault at
  their first write when the facing is not one of the four.  \<^verbatim>\<open>WALL_FACING_NORTH\<close>
  is 4, which is not one of them.  In \<^verbatim>\<open>MakeFirstMockup\<close> the clearing, the starting point, the loop over the
  rows and the first call of the loop over the columns complete; the second call of that
  loop, with \<^verbatim>\<open>WALL_FACING_NORTH\<close>, faults with an index out of range, and so does
  \<^verbatim>\<open>MakeMockup\<close> on a new map.
\<close>

theorem facing_index_unchecked:
  assumes "built_map m" and "in_map (map_width m) (map_height m) x y"
  shows "((\<exists>v. GetWallForCoordinate m (Position_new x y f) = Inr v) \<longleftrightarrow> is_facing f)
       \<and> ((\<exists>b. CanPassWallForCoordinate m (Position_new x y f) = Inr b) \<longleftrightarrow> is_facing f)
       \<and> (GetWallForCoordinate m (Position_new x y f) = Inl IndexOutOfRange \<longleftrightarrow> \<not> is_facing f)
       \<and> (CanPassWallForCoordinate m (Position_new x y f) = Inl IndexOutOfRange \<longleftrightarrow> \<not> is_facing f)
       \<and> (\<not> is_facing f \<longrightarrow> MakeNormalWall (Position_new x y f) wallID m = Inl IndexOutOfRange)
       \<and> (\<not> is_facing f \<longrightarrow> RemoveWall (Position_new x y f) m = Inl IndexOutOfRange)
       \<and> \<not> is_facing WALL_FACING_NORTH
       \<and> MakeNormalWall (Position_new x y WALL_FACING_NORTH) wallID m = Inl IndexOutOfRange
       \<and> (\<exists>m0 m1.
            bind_err (ClearMap (Map_new\<lparr>map_width := 0xA, map_height := 0xA\<rparr>)) (\<lambda>m.
              mockup_border_rows
                (m\<lparr>map_startingPoints := Some [Position_new 1 1 PLAYER_FACING_EAST]\<rparr>)) = Inr m0
          \<and> MakeNormalWall (Position_new 0 0 WALL_FACING_SOUTH) WALL_TYPE_STONE m0 = Inr m1
          \<and> built_map m1
          \<and> MakeNormalWall (Position_new 0 (map_height m1 - 1) WALL_FACING_NORTH) WALL_TYPE_STONE m1
               = Inl IndexOutOfRange)
       \<and> MakeMockup Map_new = Inl IndexOutOfRange"
proof -
  let ?p = "Position_new x y f"
  from assms(1) have sw: "table_shape (map_width m) (map_height m) (map_walls m)"
    and sp: "table_shape (map_width m) (map_height m) (map_passibility m)"
    by (simp_all add: built_map_def)
  have inm: "in_map (map_width m) (map_height m) (pos_x (Position_new x y f')) (pos_y (Position_new x y f'))"
    for f' using assms(2) by simp
  have gets: "GetWallForCoordinate m ?p = table_get (map_walls m) y x f"
    "CanPassWallForCoordinate m ?p = table_get (map_passibility m) y x f"
    using GetWall_built [OF inm] CanPass_built [OF inm] by simp_all
  have bad: "MakeNormalWall (Position_new x y f') wallID m = Inl IndexOutOfRange"
    if "\<not> is_facing f'" for f'
    using table_set_bad_facing [OF sw assms(2) that] by (simp add: MakeNormalWall_def)
  have bad_remove: "RemoveWall (Position_new x y f') m = Inl IndexOutOfRange"
    if "\<not> is_facing f'" for f'
    using table_set_bad_facing [OF sw assms(2) that] by (simp add: RemoveWall_def)
  have site: "\<exists>m0 m1.
            bind_err (ClearMap (Map_new\<lparr>map_width := 0xA, map_height := 0xA\<rparr>)) (\<lambda>m.
              mockup_border_rows
                (m\<lparr>map_startingPoints := Some [Position_new 1 1 PLAYER_FACING_EAST]\<rparr>)) = Inr m0
          \<and> MakeNormalWall (Position_new 0 0 WALL_FACING_SOUTH) WALL_TYPE_STONE m0 = Inr m1
          \<and> built_map m1
          \<and> MakeNormalWall (Position_new 0 (map_height m1 - 1) WALL_FACING_NORTH) WALL_TYPE_STONE m1
               = Inl IndexOutOfRange"
    using mockup_fault_site by (auto split: sum.splits)
  show ?thesis
    unfolding gets
    using table_get_facing_iff [OF sw assms(2), of f] table_get_facing_iff [OF sp assms(2), of f]
      bad bad_remove WALL_FACING_NORTH_not_facing site MakeMockup_faults
    by blast
qed

theorem facing_index_unchecked_witness:
  "built_map corridor_map
   \<and> in_map (map_width corridor_map) (map_height corridor_map) 1 0
   \<and> (\<exists>v. GetWallForCoordinate corridor_map (Position_new 1 0 3) = Inr v)
   \<and> GetWallForCoordinate corridor_map (Position_new 1 0 4) = Inl IndexOutOfRange
   \<and> MakeNormalWall (Position_new 1 0 WALL_FACING_NORTH) 2 corridor_map = Inl IndexOutOfRange"
proof -
  have h2: "in_map (map_width corridor_map) (map_height corridor_map) 1 0"
    by (simp add: in_map_def corridor_map_def)
  have f: "is_facing 3" "\<not> is_facing 4" by (simp_all add: is_facing_def)
  from facing_index_unchecked [OF corridor_map_built h2, of 3 2]
       facing_index_unchecked [OF corridor_map_built h2, of 4 2] f corridor_map_built h2
  show ?thesis by blast
qed

text \<open>
  With guarded indexing \<^verbatim>\<open>StartNewGame\<close> stops where the mockup does, from any
  game state.
\<close>

lemma StartNewGame_guarded: "StartNewGame g = Inl IndexOutOfRange"
  by (simp add: StartNewGame_def MakeMockup_faults)

text \<open>
  The starting points: the one stored by \<^verbatim>\<open>MakeFirstMockup\<close> is column 1, row 1,
  facing East, index 0 gives it back, and the wall operations leave it alone; without
  starting points, or for an index of 1 or more, the result is the origin facing North; a
  negative index reads before the array.
\<close>

lemma GetStartingPoint_fallback:
  "map_startingPoints m = None \<or> 1 \<le> sint which \<Longrightarrow> GetStartingPoint m which = Inr (Position_new 0 0 0)"
  by (auto simp: GetStartingPoint_def split: option.splits)

lemma mockup_starting_point:
  "GetStartingPoint (m\<lparr>map_startingPoints := Some [Position_new 1 1 PLAYER_FACING_EAST]\<rparr>) 0
     = Inr (Position_new 1 1 1)"
  by (simp add: GetStartingPoint_def index_def PLAYER_FACING_EAST_def)

lemma wall_operations_keep_starting_points:
  "MakeNormalWall p wallID m = Inr m' \<Longrightarrow> map_startingPoints m' = map_startingPoints m"
  "RemoveWall p m = Inr m' \<Longrightarrow> map_startingPoints m' = map_startingPoints m"
  by (auto simp: MakeNormalWall_def RemoveWall_def Let_def bind_err_Inr_iff split: if_splits)

lemma GetStartingPoint_negative:
  "map_startingPoints m = Some points \<Longrightarrow> sint which < 0
     \<Longrightarrow> GetStartingPoint m which = Inl IndexOutOfRange"
  by (simp add: GetStartingPoint_def index_def)

text \<open>
  The mockup as it runs.  Where the guarded operations complete, the running ones do the
  same and record no stray store; a store at a face index that is not one of the four, in
  a cell of a built table, is a stray store and the table is kept.
\<close>

lemma table_store_agrees:
  "table_set t y x f v = Inr t' \<Longrightarrow> table_store which t y x f v = Inr (t', [])"
  by (auto simp: table_set_def table_store_def bind_err_Inr_iff store_def
        split: option.splits if_splits)

lemma MakeNormalWall_run_agrees:
  assumes "MakeNormalWall p wallID m = Inr m'"
  shows "MakeNormalWall_run p wallID (m, strays) = Inr (m', strays)"
  using assms unfolding MakeNormalWall_def MakeNormalWall_run_def Let_def
  by (auto simp: bind_err_def table_store_agrees split: sum.splits if_splits)

lemma RemoveWall_run_agrees:
  assumes "RemoveWall p m = Inr m'"
  shows "RemoveWall_run p (m, strays) = Inr (m', strays)"
  using assms unfolding RemoveWall_def RemoveWall_run_def Let_def
  by (auto simp: bind_err_def table_store_agrees split: sum.splits if_splits)

lemma table_store_past_faces:
  assumes "table_shape w h t" "in_map w h x y" "\<not> is_facing f"
  shows "table_store which t y x f v = Inr (t, [StrayStore which y x f])"
proof -
  from assms(1) obtain rows where t: "t = Some rows" by (cases t) (auto simp: table_shape_def)
  note sh = table_shape_nth [OF assms(1)[unfolded t] assms(2)]
  from assms(2) have nn: "0 \<le> sint x" "0 \<le> sint y" by (auto simp: in_map_def)
  show ?thesis using t sh nn assms(3) facing_index_iff [of f]
    by (auto simp: table_store_def index_ok)
qed


lemma mockup_strays_length: "length mockup_strays = 20"
  by code_simp



section \<open>Wall sprite sets\<close>

lemma load_sprites_shape:
  "load_sprites load rootPath i s = Inr s' \<Longrightarrow> sprite_shape s \<Longrightarrow> sprite_shape s'"
  by (auto simp: load_sprites_def sprite_shape_def bind_err_Inr_iff dest!: store_length)

lemma WallSpriteSet_new_shape:
  assumes "WallSpriteSet_new load rootPath = Inr s"
  shows "sprite_shape s"
proof -
  let ?s0 = "\<lparr>wss_frontImages = replicate (nat (sint (0x3::cint))) None,
         wss_leftImages = replicate (nat (sint (0x3::cint))) None,
         wss_rightImages = replicate (nat (sint (0x3::cint))) None,
         wss_visibleDepth = 0x3\<rparr>"
  from assms have "for_each (counter_range 0 0x3) (load_sprites load rootPath) ?s0 = Inr s"
    by (simp add: WallSpriteSet_new_def Let_def)
  moreover have "sprite_shape ?s0" by (simp add: sprite_shape_def)
  ultimately show ?thesis
    by (rule for_each_invariant) (rule load_sprites_shape)
qed

lemma image_at:
  assumes "length images = 3"
  shows "(if sint r > sint (3::cint) then Inr None else index images r) =
     (if 3 < sint r then Inr None
      else if 0 \<le> sint r \<and> sint r < 3 then Inr (images ! nat (sint r))
      else Inl IndexOutOfRange)"
  using assms by (auto simp: index_def)

text \<open>
  What the constructor puts into the arrays: slot \<open>i\<close> of each is what the loader gives
  for the path of that image, null when the file did not load.
\<close>

lemma counter_range_0_3: "counter_range 0 (0x3::cint) = [0, 1, 2]"
  by code_simp

lemma WallSpriteSet_new_images:
  assumes "WallSpriteSet_new load rootPath = Inr s"
  shows "wss_frontImages s = map (\<lambda>i. load (rootPath @ ''f'' @ print_int i @ ''.png'')) [0, 1, 2]"
    and "wss_leftImages s = map (\<lambda>i. load (rootPath @ ''l'' @ print_int i @ ''.png'')) [0, 1, 2]"
    and "wss_rightImages s = map (\<lambda>i. load (rootPath @ ''r'' @ print_int i @ ''.png'')) [0, 1, 2]"
  using assms
  by (auto simp: WallSpriteSet_new_def counter_range_0_3 load_sprites_def sprite_path_def
        store_def Let_def bind_err_def eval_nat_numeral split: sum.splits if_splits)

lemma nth_of_three:
  assumes "0 \<le> sint (r::cint)" "sint r < 3"
  shows "map f [0, 1, 2] ! nat (sint r) = f r"
proof -
  from assms have "sint r = 0 \<or> sint r = 1 \<or> sint r = 2" by linarith
  then have "sint r = sint (0::cint) \<or> sint r = sint (1::cint) \<or> sint r = sint (2::cint)"
    by simp
  then have "r = 0 \<or> r = 1 \<or> r = 2" by (blast intro: signed_word_eqI)
  then show ?thesis by auto
qed

text \<open>
  Claim C7, as stated, has the getters return null exactly when the range exceeds the
  depth.  A getter also returns null for a range below the depth when the image of that
  slot did not load: the constructor stores the null of the loader, and the getter returns
  the element as it is.  With the left image of rank 1 missing, \<^verbatim>\<open>GetLeftImage(1)\<close>
  is null although 1 does not exceed the depth 3.
\<close>

theorem sprite_null_in_range_counterexample:
  "WallSpriteSet_new demo_sprite_load ''w/'' = Inr demo_sprite_set
   \<and> wss_visibleDepth demo_sprite_set = 3
   \<and> sint (1::cint) \<le> sint (wss_visibleDepth demo_sprite_set)
   \<and> GetLeftImage demo_sprite_set 1 = Inr None"
  by code_simp

text \<open>
  Claim C7, amended.  Every sprite set the constructor returns has depth 3 and three
  arrays of 3 images.  For every \<^verbatim>\<open>int\<close> \<open>r\<close>, each of the three getters returns
  null without reading when \<open>r\<close> exceeds the depth; for \<open>0 \<le> r < depth\<close> it returns
  the element at index \<open>r\<close>, read in bounds, which is what the loader gave for the image
  of that rank; for \<open>r = depth\<close> the check lets \<open>r\<close> through and the read is at the
  length of the array, one past its end; for a negative \<open>r\<close> the check lets \<open>r\<close>
  through and the read is before the array.  Both reads outside the array are the fault.
  So the result of each getter is null exactly when \<open>r\<close> exceeds the depth or \<open>r\<close> is
  in bounds and the image of that rank did not load.
\<close>

theorem sprite_depth_bound:
  assumes "WallSpriteSet_new load rootPath = Inr s"
  shows "wss_visibleDepth s = 3
       \<and> length (wss_frontImages s) = 3 \<and> length (wss_leftImages s) = 3
       \<and> length (wss_rightImages s) = 3
       \<and> GetFrontImage s r =
           (if sint (wss_visibleDepth s) < sint r then Inr None
            else if 0 \<le> sint r \<and> sint r < sint (wss_visibleDepth s)
                 then Inr (wss_frontImages s ! nat (sint r))
            else Inl IndexOutOfRange)
       \<and> GetLeftImage s r =
           (if sint (wss_visibleDepth s) < sint r then Inr None
            else if 0 \<le> sint r \<and> sint r < sint (wss_visibleDepth s)
                 then Inr (wss_leftImages s ! nat (sint r))
            else Inl IndexOutOfRange)
       \<and> GetRightImage s r =
           (if sint (wss_visibleDepth s) < sint r then Inr None
            else if 0 \<le> sint r \<and> sint r < sint (wss_visibleDepth s)
                 then Inr (wss_rightImages s ! nat (sint r))
            else Inl IndexOutOfRange)
       \<and> (0 \<le> sint r \<and> sint r < sint (wss_visibleDepth s) \<longrightarrow>
            wss_frontImages s ! nat (sint r) = load (rootPath @ ''f'' @ print_int r @ ''.png'')
            \<and> wss_leftImages s ! nat (sint r) = load (rootPath @ ''l'' @ print_int r @ ''.png'')
            \<and> wss_rightImages s ! nat (sint r) = load (rootPath @ ''r'' @ print_int r @ ''.png''))
       \<and> (r = wss_visibleDepth s \<longrightarrow>
            nat (sint r) = length (wss_frontImages s)
            \<and> nat (sint r) = length (wss_leftImages s)
            \<and> nat (sint r) = length (wss_rightImages s)
            \<and> GetFrontImage s r = Inl IndexOutOfRange \<and> GetLeftImage s r = Inl IndexOutOfRange
            \<and> GetRightImage s r = Inl IndexOutOfRange)
       \<and> (sint r < 0 \<longrightarrow>
            GetFrontImage s r = Inl IndexOutOfRange \<and> GetLeftImage s r = Inl IndexOutOfRange
            \<and> GetRightImage s r = Inl IndexOutOfRange)
       \<and> (GetFrontImage s r = Inr None \<longleftrightarrow>
            sint (wss_visibleDepth s) < sint r
            \<or> (0 \<le> sint r \<and> sint r < sint (wss_visibleDepth s)
                \<and> load (rootPath @ ''f'' @ print_int r @ ''.png'') = None))
       \<and> (GetLeftImage s r = Inr None \<longleftrightarrow>
            sint (wss_visibleDepth s) < sint r
            \<or> (0 \<le> sint r \<and> sint r < sint (wss_visibleDepth s)
                \<and> load (rootPath @ ''l'' @ print_int r @ ''.png'') = None))
       \<and> (GetRightImage s r = Inr None \<longleftrightarrow>
            sint (wss_visibleDepth s) < sint r
            \<or> (0 \<le> sint r \<and> sint r < sint (wss_visibleDepth s)
                \<and> load (rootPath @ ''r'' @ print_int r @ ''.png'') = None))"
proof -
  from WallSpriteSet_new_shape [OF assms]
  have sh: "wss_visibleDepth s = 3" "length (wss_frontImages s) = 3"
    "length (wss_leftImages s) = 3" "length (wss_rightImages s) = 3"
    by (simp_all add: sprite_shape_def)
  note imgs = WallSpriteSet_new_images [OF assms]
  have el: "wss_frontImages s ! nat (sint r) = load (rootPath @ ''f'' @ print_int r @ ''.png'')"
    "wss_leftImages s ! nat (sint r) = load (rootPath @ ''l'' @ print_int r @ ''.png'')"
    "wss_rightImages s ! nat (sint r) = load (rootPath @ ''r'' @ print_int r @ ''.png'')"
    if "0 \<le> sint r" "sint r < 3"
    unfolding imgs using nth_of_three [OF that] by simp_all
  have f: "GetFrontImage s r =
           (if 3 < sint r then Inr None
            else if 0 \<le> sint r \<and> sint r < 3 then Inr (wss_frontImages s ! nat (sint r))
            else Inl IndexOutOfRange)"
    unfolding GetFrontImage_def sh(1) using image_at [OF sh(2)] by simp
  have l: "GetLeftImage s r =
           (if 3 < sint r then Inr None
            else if 0 \<le> sint r \<and> sint r < 3 then Inr (wss_leftImages s ! nat (sint r))
            else Inl IndexOutOfRange)"
    unfolding GetLeftImage_def sh(1) using image_at [OF sh(3)] by simp
  have r: "GetRightImage s r =
           (if 3 < sint r then Inr None
            else if 0 \<le> sint r \<and> sint r < 3 then Inr (wss_rightImages s ! nat (sint r))
            else Inl IndexOutOfRange)"
    unfolding GetRightImage_def sh(1) using image_at [OF sh(4)] by simp
  show ?thesis
    unfolding f l r sh using el by auto
qed

theorem sprite_depth_bound_witness:
  "WallSpriteSet_new demo_sprite_load ''w/'' = Inr demo_sprite_set
   \<and> GetFrontImage demo_sprite_set 3 = Inl IndexOutOfRange
   \<and> GetLeftImage demo_sprite_set 4 = Inr None
   \<and> GetRightImage demo_sprite_set 2 = Inr (demo_sprite_load ''w/r2.png'')
   \<and> demo_sprite_load ''w/r2.png'' = Some (Surface 8)
   \<and> GetLeftImage demo_sprite_set 1 = Inr None
   \<and> demo_sprite_load ''w/l1.png'' = None
   \<and> GetRightImage demo_sprite_set (- 1) = Inl IndexOutOfRange"
proof -
  have h: "WallSpriteSet_new demo_sprite_load ''w/'' = Inr demo_sprite_set" by code_simp
  have d: "wss_visibleDepth demo_sprite_set = 3" by (simp add: demo_sprite_set_def)
  have p: "print_int 2 = ''2''" "print_int 1 = ''1''" by code_simp+
  have v: "demo_sprite_load ''w/r2.png'' = Some (Surface 8)" "demo_sprite_load ''w/l1.png'' = None"
    by code_simp+
  from sprite_depth_bound [OF h, of 3] d
  have a: "GetFrontImage demo_sprite_set 3 = Inl IndexOutOfRange" by simp
  from sprite_depth_bound [OF h, of 4] d
  have b: "GetLeftImage demo_sprite_set 4 = Inr None" by simp
  from sprite_depth_bound [OF h, of 2] d p
  have c: "GetRightImage demo_sprite_set 2 = Inr (demo_sprite_load ''w/r2.png'')" by simp
  from sprite_depth_bound [OF h, of 1] d p v
  have e: "GetLeftImage demo_sprite_set 1 = Inr None" by simp
  from sprite_depth_bound [OF h, of "- 1"] d
  have g: "GetRightImage demo_sprite_set (- 1) = Inl IndexOutOfRange" by simp
  from h a b c e g v show ?thesis by simp
qed

section \<open>The mini-map\<close>

lemma IsVisited_False [simp]: "IsVisited m column row = False"
  by (simp add: IsVisited_def)

lemma cell_colour_unvisited: "cell_colour m playerX playerZ row column = notVisitedCellColor"
  by (simp add: cell_colour_def)

lemma demo_minimap_update:
  "Update demo_create demo_game demo_minimap =
     Inr (demo_minimap\<lparr>mm_miniMapSurface := Some (Surface 0)\<rparr>,
          [FillRect None (0, 0, 0),
           FillRect (Some \<lparr>rect_x = 0, rect_y = 0, rect_w = 70, rect_h = 140\<rparr>)
             notVisitedCellColor,
           FillRect (Some \<lparr>rect_x = 70, rect_y = 0, rect_w = 140, rect_h = 140\<rparr>)
             notVisitedCellColor])"
  by code_simp

text \<open>
  Claim C8, as stated, colours the player's cell with the player colour whatever
  \<^verbatim>\<open>IsVisited\<close> says.  The source asks \<^verbatim>\<open>IsVisited\<close> first and looks for the player
  only in a visited cell.  On the corridor with the player in column 1 of row 0, the
  player's cell is filled with the unvisited colour, not with the player colour of the
  claim.
\<close>

theorem minimap_player_cell_counterexample:
  "Update demo_create demo_game demo_minimap =
     Inr (demo_minimap\<lparr>mm_miniMapSurface := Some (Surface 0)\<rparr>,
          [FillRect None (0, 0, 0),
           FillRect (Some \<lparr>rect_x = 0, rect_y = 0, rect_w = 70, rect_h = 140\<rparr>)
             notVisitedCellColor,
           FillRect (Some \<lparr>rect_x = 70, rect_y = 0, rect_w = 140, rect_h = 140\<rparr>)
             notVisitedCellColor])
   \<and> pos_x (gs_playerPosition demo_game) = 1 \<and> pos_y (gs_playerPosition demo_game) = 0
   \<and> cell_box 70 140 0 1 = \<lparr>rect_x = 70, rect_y = 0, rect_w = 140, rect_h = 140\<rparr>
   \<and> cell_colour corridor_map 1 0 0 1 = notVisitedCellColor
   \<and> cell_colour_claimed corridor_map 1 0 0 1 = playerCellColor
   \<and> cell_colour corridor_map 1 0 0 1 \<noteq> cell_colour_claimed corridor_map 1 0 0 1"
proof -
  have "cell_box 70 140 0 1 = \<lparr>rect_x = 70, rect_y = 0, rect_w = 140, rect_h = 140\<rparr>"
    by code_simp
  moreover have "cell_colour_claimed corridor_map 1 0 0 1 = playerCellColor"
    by (simp add: cell_colour_claimed_def)
  moreover have "notVisitedCellColor \<noteq> playerCellColor"
    by (simp add: notVisitedCellColor_def playerCellColor_def)
  ultimately show ?thesis
    using demo_minimap_update
    by (simp add: cell_colour_unvisited demo_game_def)
qed

text \<open>
  Claim C8, amended.  Whenever \<^verbatim>\<open>Update\<close> completes with a surface to draw on, the
  map is not null, the cell sizes are the two quotients, and what is drawn is the clearing
  fill followed by one fill per cell, row by row; the colour of a cell is the player
  colour or the visited colour only inside the test of \<^verbatim>\<open>IsVisited\<close>, and the
  unvisited colour otherwise.  \<^verbatim>\<open>IsVisited\<close> is false for every argument, so every
  cell, the player's included, is filled with the unvisited colour.
\<close>

theorem minimap_all_unvisited:
  assumes "Update create game mm = Inr (mm', drawn)"
    and "mm_miniMapSurface mm' \<noteq> None"
  shows "\<exists>m cw ch.
           mm_currentMap mm = Some m
         \<and> c_div (mm_width mm) (GetWidth m) = Inr cw
         \<and> c_div (mm_height mm) (GetHeight m) = Inr ch
         \<and> drawn = FillRect None (0, 0, 0) #
             concat (map (\<lambda>row. map (\<lambda>column.
                       FillRect (Some (cell_box cw ch row column))
                         (if IsVisited m column row
                          then (if row = pos_y (gs_playerPosition game)
                                   \<and> column = pos_x (gs_playerPosition game)
                                then playerCellColor else visitedCellColor)
                          else notVisitedCellColor))
                     (counter_range 0 (GetWidth m)))
                   (counter_range 0 (GetHeight m)))
         \<and> (\<forall>column row. IsVisited m column row = False)
         \<and> (\<forall>d \<in> set (tl drawn). \<exists>box. d = FillRect (Some box) notVisitedCellColor)
         \<and> length (tl drawn) = nat (sint (GetWidth m)) * nat (sint (GetHeight m))"
proof -
  let ?mm1 = "if mm_miniMapSurface mm = None
              then mm\<lparr>mm_miniMapSurface := create (mm_width mm) (mm_height mm)\<rparr> else mm"
  from assms have s1: "mm_miniMapSurface ?mm1 \<noteq> None"
    by (auto simp: Update_def RecreateMiniMapSurface_def Let_def split: if_splits option.splits
          simp: bind_err_Inr_iff)
  with assms(1) obtain m where m: "mm_currentMap mm = Some m"
    by (cases "mm_currentMap mm")
       (auto simp: Update_def RecreateMiniMapSurface_def Let_def split: if_splits)
  from assms(1) s1 m obtain cw ch where
    cw: "c_div (mm_width mm) (GetWidth m) = Inr cw" and
    ch: "c_div (mm_height mm) (GetHeight m) = Inr ch" and
    dr: "drawn = FillRect None (0, 0, 0) #
           concat (map (\<lambda>row. map (\<lambda>column.
                     draw_cell m (pos_x (gs_playerPosition game)) (pos_y (gs_playerPosition game))
                       cw ch row column)
                   (counter_range 0 (GetWidth m)))
                 (counter_range 0 (GetHeight m)))"
    by (auto simp: Update_def RecreateMiniMapSurface_def Let_def bind_err_Inr_iff
          split: if_splits)
  have len: "length (concat (map (\<lambda>row. map (f row) (counter_range 0 w)) (counter_range 0 h)))
        = nat (sint w) * nat (sint h)" for f :: "cint \<Rightarrow> cint \<Rightarrow> draw" and w h
    by (simp add: length_concat comp_def sum_list_triv)
  show ?thesis
    using m cw ch dr
    by (intro exI [of _ m] exI [of _ cw] exI [of _ ch])
       (auto simp: draw_cell_def cell_colour_def len)
qed

theorem minimap_all_unvisited_witness:
  "Update demo_create demo_game demo_minimap =
     Inr (demo_minimap\<lparr>mm_miniMapSurface := Some (Surface 0)\<rparr>,
          [FillRect None (0, 0, 0),
           FillRect (Some \<lparr>rect_x = 0, rect_y = 0, rect_w = 70, rect_h = 140\<rparr>)
             notVisitedCellColor,
           FillRect (Some \<lparr>rect_x = 70, rect_y = 0, rect_w = 140, rect_h = 140\<rparr>)
             notVisitedCellColor])
   \<and> mm_miniMapSurface (demo_minimap\<lparr>mm_miniMapSurface := Some (Surface 0)\<rparr>) \<noteq> None
   \<and> (\<exists>cw ch. c_div (mm_width demo_minimap) (GetWidth corridor_map) = Inr cw
         \<and> c_div (mm_height demo_minimap) (GetHeight corridor_map) = Inr ch)
   \<and> list_all (\<lambda>d. \<exists>box. d = FillRect (Some box) notVisitedCellColor)
         [FillRect (Some \<lparr>rect_x = 0, rect_y = 0, rect_w = 70, rect_h = 140\<rparr>)
            notVisitedCellColor,
          FillRect (Some \<lparr>rect_x = 70, rect_y = 0, rect_w = 140, rect_h = 140\<rparr>)
            notVisitedCellColor]"
proof -
  have h2: "mm_miniMapSurface (demo_minimap\<lparr>mm_miniMapSurface := Some (Surface 0)\<rparr>) \<noteq> None"
    by simp
  from minimap_all_unvisited [OF demo_minimap_update h2] demo_minimap_update h2
  show ?thesis by (auto simp: demo_minimap_def)
qed

section \<open>Reachable facings, and operations that complete\<close>

text \<open>
  The player starts facing North, \<^verbatim>\<open>StartNewGame\<close> copies a starting point facing
  East, and no operation of \<^verbatim>\<open>GameState\<close> leads from one of the four facings to
  anything else.
\<close>

lemma player_facing_kept:
  "is_facing (pos_facing (gs_playerPosition GameState_new))"
  "is_facing (pos_facing (gs_playerPosition g)) \<Longrightarrow>
     is_facing (pos_facing (gs_playerPosition (TurnPlayerLeft g)))"
  "is_facing (pos_facing (gs_playerPosition g)) \<Longrightarrow>
     is_facing (pos_facing (gs_playerPosition (TurnPlayerRight g)))"
  "is_facing (pos_facing (gs_playerPosition g)) \<Longrightarrow> MovePlayerForward g = Inr (b, g') \<Longrightarrow>
     is_facing (pos_facing (gs_playerPosition g'))"
  "is_facing (pos_facing (gs_playerPosition g)) \<Longrightarrow> MovePlayerBack g = Inr (b, g') \<Longrightarrow>
     is_facing (pos_facing (gs_playerPosition g'))"
  "is_facing (pos_facing (gs_playerPosition g)) \<Longrightarrow> MovePlayerLeft g = Inr (b, g') \<Longrightarrow>
     is_facing (pos_facing (gs_playerPosition g'))"
  "is_facing (pos_facing (gs_playerPosition g)) \<Longrightarrow> MovePlayerRight g = Inr (b, g') \<Longrightarrow>
     is_facing (pos_facing (gs_playerPosition g'))"
  by (auto simp: GameState_new_def is_facing_def [of 0] TurnPlayerLeft_def TurnPlayerRight_def
        turn_facing MovePlayerForward_def MovePlayerBack_def MovePlayerLeft_def
        MovePlayerRight_def Let_def bind_err_Inr_iff
        GetPositionBehindThis_def
      split: option.splits if_splits)

text \<open>
  \<^verbatim>\<open>ClearMap\<close> completes on a map whose sizes are not negative and whose tables are
  null (a new map) or of those sizes (a map cleared before); the constructor of a sprite
  set completes when the path fits the buffer.
\<close>

lemma for_each_unit:
  "for_each is body () = Inr ()" if "\<And>i. i \<in> set is \<Longrightarrow> body i () = Inr ()"
  using that by (induction "is") simp_all

lemma sint_of_nat_small:
  "sint (word_of_nat k :: cint) = int k" if "k < nat (sint (n::cint))"
proof -
  have "sint n < 2 ^ 31" using sint_lt [of n] by simp
  with that have "int k < 2 ^ 31" by linarith
  then have "signed_take_bit 31 (int k) = int k"
    by (intro signed_take_bit_int_eq_self) auto
  then show ?thesis by (simp add: signed_of_nat)
qed

lemma counter_range_elem:
  "i \<in> set (counter_range 0 n) \<Longrightarrow> 0 \<le> sint i \<and> sint i < sint n"
  by (auto simp: counter_range_def sint_of_nat_small)

lemma free_table_ok:
  assumes "t = None \<or> table_shape w h t"
  shows "free_table w h t = Inr ()"
proof (cases t)
  case None
  then show ?thesis by (simp add: free_table_def)
next
  case (Some rows)
  with assms have sh: "table_shape w h (Some rows)" by simp
  have inner: "for_each (counter_range 0 w) (\<lambda>column u.
                bind_err (index (rows ! nat (sint row)) column) (\<lambda>cell. Inr ())) () = Inr ()"
    if "0 \<le> sint row" "sint row < sint h" for row :: cint
  proof (rule for_each_unit)
    fix column assume "column \<in> set (counter_range 0 w)"
    then have c: "0 \<le> sint column" "sint column < sint w" using counter_range_elem by auto
    with that have "in_map w h column row" by (simp add: in_map_def)
    from table_shape_nth(2) [OF sh this] c(1)
    show "bind_err (index (rows ! nat (sint row)) column) (\<lambda>cell. Inr ()) = Inr ()"
      by (simp add: index_ok)
  qed
  have "for_each (counter_range 0 h) (\<lambda>row u.
            bind_err (index rows row) (\<lambda>r.
              for_each (counter_range 0 w) (\<lambda>column u.
                bind_err (index r column) (\<lambda>cell. Inr ())) ())) () = Inr ()"
  proof (rule for_each_unit)
    fix row assume "row \<in> set (counter_range 0 h)"
    then have r: "0 \<le> sint row" "sint row < sint h" using counter_range_elem by auto
    from sh r have "nat (sint row) < length rows" by (auto simp: table_shape_def)
    with r(1) inner [OF r]
    show "bind_err (index rows row) (\<lambda>r.
              for_each (counter_range 0 w) (\<lambda>column u.
                bind_err (index r column) (\<lambda>cell. Inr ())) ()) = Inr ()"
      by (simp add: index_ok)
  qed
  with Some show ?thesis by (simp add: free_table_def)
qed

lemma ClearMap_completes:
  assumes "0 \<le> sint (map_width m)" "0 \<le> sint (map_height m)"
    and "map_walls m = None \<or> table_shape (map_width m) (map_height m) (map_walls m)"
    and "map_passibility m = None
         \<or> table_shape (map_width m) (map_height m) (map_passibility m)"
  shows "\<exists>m'. ClearMap m = Inr m'"
  using assms(1,2) free_table_ok [OF assms(3)] free_table_ok [OF assms(4)]
  by (simp add: ClearMap_def Let_def alloc_table_def)

lemma length_decimal_digit: "n < 10 \<Longrightarrow> length (decimal n) = 1"
  by simp

lemma sprite_path_ok:
  assumes "length rootPath \<le> 249" "0 \<le> sint i" "sint i < 3"
  shows "\<exists>b. sprite_path rootPath [l] i = Inr b"
proof -
  from assms(2,3) have "nat (sint i) < 10" by linarith
  then have "length (print_int i) = 1" using assms(2) by (simp add: print_int_def)
  with assms(1) show ?thesis by (simp add: sprite_path_def Let_def)
qed

lemma load_sprites_ok:
  assumes "length rootPath \<le> 249" "0 \<le> sint i" "sint i < 3" "sprite_shape s"
  shows "\<exists>s'. load_sprites load rootPath i s = Inr s'"
proof -
  from sprite_path_ok [OF assms(1-3)] obtain b1 b2 b3 where
    "sprite_path rootPath ''f'' i = Inr b1" "sprite_path rootPath ''l'' i = Inr b2"
    "sprite_path rootPath ''r'' i = Inr b3" by blast
  moreover from assms(2-4) have "nat (sint i) < length (wss_frontImages s)"
    "nat (sint i) < length (wss_leftImages s)" "nat (sint i) < length (wss_rightImages s)"
    by (auto simp: sprite_shape_def)
  ultimately show ?thesis using assms(2)
    by (simp add: load_sprites_def store_ok)
qed

lemma for_each_completes:
  assumes "P s" and "\<And>i s. i \<in> set is \<Longrightarrow> P s \<Longrightarrow> \<exists>s'. body i s = Inr s' \<and> P s'"
  shows "\<exists>s'. for_each is body s = Inr s' \<and> P s'"
  using assms
proof (induction "is" arbitrary: s)
  case Nil
  then show ?case by simp
next
  case (Cons i "is")
  from Cons.prems(2) [of i s] Cons.prems(1) obtain s1 where s1: "body i s = Inr s1" "P s1"
    by auto
  from Cons.IH [OF s1(2)] Cons.prems(2) obtain s' where "for_each is body s1 = Inr s'" "P s'"
    by auto
  with s1(1) show ?case by simp
qed

lemma WallSpriteSet_new_completes:
  assumes "length rootPath \<le> 249"
  shows "\<exists>s. WallSpriteSet_new load rootPath = Inr s"
proof -
  let ?s0 = "\<lparr>wss_frontImages = replicate (nat (sint (0x3::cint))) None,
         wss_leftImages = replicate (nat (sint (0x3::cint))) None,
         wss_rightImages = replicate (nat (sint (0x3::cint))) None,
         wss_visibleDepth = 0x3\<rparr>"
  have "sprite_shape ?s0" by (simp add: sprite_shape_def)
  then have "\<exists>s'. for_each (counter_range 0 0x3) (load_sprites load rootPath) ?s0 = Inr s'
               \<and> sprite_shape s'"
  proof (rule for_each_completes)
    fix i s assume i: "i \<in> set (counter_range 0 (0x3::cint))" and s: "sprite_shape s"
    from counter_range_elem [OF i] have b: "0 \<le> sint i" "sint i < 3" by simp_all
    from load_sprites_ok [OF assms b s] obtain s' where
      s': "load_sprites load rootPath i s = Inr s'" by blast
    with load_sprites_shape [OF s' s]
    show "\<exists>s'. load_sprites load rootPath i s = Inr s' \<and> sprite_shape s'" by blast
  qed
  then show ?thesis by (auto simp: WallSpriteSet_new_def Let_def)
qed

text \<open>
  \<^verbatim>\<open>MakeNormalWall\<close> tests the cell ahead with the inclusive \<^verbatim>\<open>InBounds\<close>, which
  lets the column \<^verbatim>\<open>width_\<close> and the row \<^verbatim>\<open>height_\<close> through: a wall on the East
  face of the last column writes past the row.
\<close>

lemma MakeNormalWall_past_edge_example:
  "MakeNormalWall (Position_new 1 0 1) 2 corridor_map = Inl IndexOutOfRange"
  by code_simp

text \<open>
  \<^verbatim>\<open>Update\<close> completes when the mini-map has a map whose sizes can be divided by.
\<close>

lemma Update_completes:
  assumes "mm_currentMap mm = Some m"
    and "map_width m \<noteq> 0" "map_height m \<noteq> 0"
    and "sint (map_width m) \<noteq> - 1" "sint (map_height m) \<noteq> - 1"
  shows "\<exists>mm' drawn. Update create game mm = Inr (mm', drawn)"
  using assms
  by (simp add: Update_def RecreateMiniMapSurface_def Let_def c_div_def GetWidth_def
        GetHeight_def)

text \<open>
  The rotations take the facing modulo 4: from \<^verbatim>\<open>WALL_FACING_NORTH\<close>, which is not
  one of the four facings, a left turn followed by a right turn arrives at North.
\<close>

lemma rotation_of_WALL_FACING_NORTH:
  "pos_facing (GetRightFacingOfThis (GetLeftFacingOfThis (Position_new x y WALL_FACING_NORTH)))
     = PLAYER_FACING_NORTH"
  by (simp add: GetLeftFacingOfThis_def GetRightFacingOfThis_def WALL_FACING_NORTH_def
        PLAYER_FACING_NORTH_def c_mod_def smod_int_alt_def)

end
